theory Spec2Isabelle
  imports Main
begin

section \<open>Shopping cart (CartContext: \<open>cartReducer\<close>)\<close>

text \<open>
  Amounts of money are JavaScript numbers that come from \<open>DECIMAL(10,2)\<close> columns; they are
  modelled as integers counting hundredths of the currency unit. Quantities are integers.
  \<open>CartItemBase\<close> is \<open>Omit<CartItem, 'id' | 'quantity'>\<close>, the part of a cart item that the
  \<open>ADD_ITEM\<close> payload always carries; \<open>CartItem\<close> adds the two remaining fields.
\<close>

record CartItemBase =
  productId :: string
  name :: string
  price :: int
  unit :: string
  image_url :: "string option"
  vendorId :: string
  vendorName :: string
  maxStock :: int

record CartItem = CartItemBase +
  item_id :: string
  quantity :: int

record CartState =
  items :: "CartItem list"
  total' :: int
  itemCount :: int

datatype CartAction =
    ADD_ITEM "CartItemBase" "int option"
  | REMOVE_ITEM string
  | UPDATE_QUANTITY string int
  | CLEAR_CART
  | LOAD_CART "CartItem list"

text \<open>\<open>Array.prototype.findIndex\<close>: the first index whose element satisfies the test, else -1.\<close>

fun findIndex :: "('a \<Rightarrow> bool) \<Rightarrow> 'a list \<Rightarrow> int" where
  "findIndex P [] = -1"
| "findIndex P (x # xs) =
     (if P x then 0 else (let i = findIndex P xs in if i < 0 then -1 else i + 1))"

text \<open>\<open>q || 1\<close> on an optional number: an absent or zero quantity counts as one.\<close>

definition quantity_or_one :: "int option \<Rightarrow> int" where
  "quantity_or_one q = (case q of None \<Rightarrow> 1 | Some n \<Rightarrow> if n = 0 then 1 else n)"

text \<open>Decimal rendering of \<open>Date.now()\<close> inside the template string of a new item's id.\<close>

definition digit_char :: "nat \<Rightarrow> char" where
  "digit_char d = char_of (48 + d)"

function show_nat :: "nat \<Rightarrow> string" where
  "show_nat n = (if n < 10 then [digit_char n] else show_nat (n div 10) @ [digit_char (n mod 10)])"
  by pat_completeness auto
termination
  by (relation "measure id") auto

text \<open>The two \<open>reduce\<close> calls that every recomputing branch of the reducer runs.\<close>

definition reduce_total :: "CartItem list \<Rightarrow> int" where
  "reduce_total xs = foldl (\<lambda>sum item. sum + price item * quantity item) 0 xs"

definition reduce_itemCount :: "CartItem list \<Rightarrow> int" where
  "reduce_itemCount xs = foldl (\<lambda>sum item. sum + quantity item) 0 xs"

text \<open>
  The reducer. \<open>now\<close> is the value of \<open>Date.now()\<close> at the dispatch; toasts are
  notifications only and leave the state alone, so the branches that raise one just return.
\<close>

function cartReducer :: "nat \<Rightarrow> CartState \<Rightarrow> CartAction \<Rightarrow> CartState" where
  "cartReducer now state (ADD_ITEM payload qty) =
     (let existingItemIndex = findIndex (\<lambda>item. productId item = productId payload) (items state)
      in if existingItemIndex \<ge> 0 then
           (let existingItem = items state ! nat existingItemIndex;
                newQuantity = quantity existingItem + quantity_or_one qty
            in if newQuantity > maxStock payload then state
               else
                 (let newItems =
                        map (\<lambda>(index, item).
                               if int index = existingItemIndex
                               then item\<lparr>quantity := newQuantity\<rparr> else item)
                            (enumerate 0 (items state))
                  in \<lparr>items = newItems, total' = reduce_total newItems,
                      itemCount = reduce_itemCount newItems\<rparr>))
         else
           (let quantity' = quantity_or_one qty
            in if quantity' > maxStock payload then state
               else
                 (let newItem =
                        \<lparr>productId = productId payload, name = name payload,
                         price = price payload, unit = unit payload,
                         image_url = image_url payload, vendorId = vendorId payload,
                         vendorName = vendorName payload, maxStock = maxStock payload,
                         item_id = productId payload @ ''-'' @ show_nat now,
                         quantity = quantity'\<rparr>;
                      newItems = items state @ [newItem]
                  in \<lparr>items = newItems, total' = reduce_total newItems,
                      itemCount = reduce_itemCount newItems\<rparr>)))"
| "cartReducer now state (REMOVE_ITEM rid) =
     (let newItems = filter (\<lambda>item. item_id item \<noteq> rid) (items state)
      in \<lparr>items = newItems, total' = reduce_total newItems,
          itemCount = reduce_itemCount newItems\<rparr>)"
| "cartReducer now state (UPDATE_QUANTITY uid qty) =
     (if qty \<le> 0 then cartReducer now state (REMOVE_ITEM uid)
      else
        (let newItems =
               map (\<lambda>item. if item_id item = uid
                            then (if qty > maxStock item then item
                                  else item\<lparr>quantity := qty\<rparr>)
                            else item)
                   (items state)
         in \<lparr>items = newItems, total' = reduce_total newItems,
             itemCount = reduce_itemCount newItems\<rparr>))"
| "cartReducer now state CLEAR_CART = \<lparr>items = [], total' = 0, itemCount = 0\<rparr>"
| "cartReducer now state (LOAD_CART loaded) =
     \<lparr>items = loaded, total' = reduce_total loaded, itemCount = reduce_itemCount loaded\<rparr>"
  by pat_completeness auto
termination
  by (relation "measure (\<lambda>(now, state, action).
        case action of UPDATE_QUANTITY uid qty \<Rightarrow> 1 | _ \<Rightarrow> 0)") auto

text \<open>The state \<open>useReducer\<close> starts from, and a run of dispatched actions with their clock readings.\<close>

definition initialCart :: CartState where
  "initialCart = \<lparr>items = [], total' = 0, itemCount = 0\<rparr>"

definition dispatch_all :: "CartState \<Rightarrow> (nat \<times> CartAction) list \<Rightarrow> CartState" where
  "dispatch_all state acts = foldl (\<lambda>s (now, action). cartReducer now s action) state acts"

text \<open>What the stored aggregates of a cart state should be.\<close>

definition cart_consistent :: "CartState \<Rightarrow> bool" where
  "cart_consistent s \<longleftrightarrow>
     total' s = (\<Sum>item\<leftarrow>items s. price item * quantity item) \<and>
     itemCount s = (\<Sum>item\<leftarrow>items s. quantity item)"

section \<open>The relational store (orders, order items, payments, vendors, products)\<close>

text \<open>
  The tables \<open>orders\<close>, \<open>order_items\<close> and \<open>payments\<close> are modelled as the migration that adds
  payments defines them: it is the one that declares the trigger, the \<open>payments\<close> table and
  the customer columns which checkout and the payment service write. \<open>vendors\<close>, \<open>products\<close>
  and \<open>user_roles\<close> are those of the first migration.

  Rows are records holding the columns that the application and the trigger read or write.
  \<open>DECIMAL(10,2)\<close> columns are integers counting hundredths, timestamps are natural numbers
  (milliseconds), primary keys are the strings that \<open>gen_random_uuid()\<close> produced. The payment
  service only ever writes the four literals of its status type into \<open>payments.status\<close> and
  \<open>orders.payment_status\<close>, so both columns use a datatype; the column constraint on the text
  values themselves is treated in its own section.
\<close>

datatype pstatus = Pending | Completed | Failed | Cancelled

datatype db_error =
    NotNullViolation
  | NumericOverflow
  | ForeignKeyViolation
  | UniqueViolation
  | CheckViolation
  | NoSingleRow
  | BackendError string

fun error_message :: "db_error \<Rightarrow> string" where
  "error_message NotNullViolation = ''null value violates not-null constraint''"
| "error_message NumericOverflow = ''numeric field overflow''"
| "error_message ForeignKeyViolation = ''violates foreign key constraint''"
| "error_message UniqueViolation = ''duplicate key value violates unique constraint''"
| "error_message CheckViolation = ''new row violates check constraint''"
| "error_message NoSingleRow = ''JSON object requested, multiple (or no) rows returned''"
| "error_message (BackendError m) = m"

record order =
  o_id :: string
  customer_id :: string
  total_amount :: int
  delivery_address :: string
  delivery_fee :: "int option"
  o_status :: string
  payment_status :: pstatus
  payment_method :: "string option"
  o_notes :: "string option"
  o_customer_name :: string
  o_customer_email :: string
  o_customer_phone :: string
  o_updated_at :: nat

text \<open>\<open>order_item_row\<close> is what an \<open>INSERT\<close> or \<open>UPDATE\<close> supplies; the stored row adds the key.\<close>

record order_item_row =
  oi_order_id :: string
  oi_product_id :: string
  oi_quantity :: int
  oi_unit_price :: int
  oi_subtotal :: int

record order_item = order_item_row +
  oi_id :: string

record payment =
  pay_id :: string
  pay_order_id :: string
  pay_method :: string
  pay_amount :: int
  pay_currency :: string
  status :: pstatus
  transaction_id :: "string option"
  pay_customer_name :: string
  pay_customer_email :: string
  pay_customer_phone :: string
  pay_metadata :: "(string \<times> string) list option"
  pay_updated_at :: nat

record vendor =
  v_id :: string
  v_user_id :: string
  business_name :: string
  location :: "string option"
  verification_status :: "string option"

record product =
  pr_id :: string
  pr_vendor_id :: string
  pr_category_id :: string
  pr_name :: string
  pr_price :: int
  pr_unit :: string
  stock_quantity :: int
  is_active :: "bool option"

record database =
  orders :: "order list"
  order_items :: "order_item list"
  payments :: "payment list"
  vendors :: "vendor list"
  products :: "product list"
  user_roles :: "(string \<times> string) list"

text \<open>A \<open>DECIMAL(10,2)\<close> column holds absolute values below \<open>10^8\<close>, that is \<open>10^10\<close> hundredths.\<close>

definition decimal_10_2 :: "int \<Rightarrow> bool" where
  "decimal_10_2 v \<longleftrightarrow> \<bar>v\<bar> < 10 ^ 10"

subsection \<open>The trigger function \<open>update_order_total\<close>\<close>

text \<open>SQL \<open>SUM\<close> over no rows is \<open>NULL\<close>; \<open>COALESCE\<close> takes the first argument that is not.\<close>

definition sql_sum :: "int list \<Rightarrow> int option" where
  "sql_sum xs = (case xs of [] \<Rightarrow> None | _ \<Rightarrow> Some (sum_list xs))"

definition coalesce :: "'a option \<Rightarrow> 'a \<Rightarrow> 'a" where
  "coalesce a b = (case a of Some x \<Rightarrow> x | None \<Rightarrow> b)"

definition coalesce_opt :: "'a option \<Rightarrow> 'a option \<Rightarrow> 'a option" where
  "coalesce_opt a b = (case a of Some x \<Rightarrow> Some x | None \<Rightarrow> b)"

text \<open>
  The scalar subquery of the trigger for the order \<open>oid\<close>:
  \<open>SELECT COALESCE(SUM(subtotal), 0) + delivery_fee FROM order_items WHERE order_id = oid\<close>.
  \<open>delivery_fee\<close> is not a column of \<open>order_items\<close>, so it is the fee of the order row being
  updated; a \<open>NULL\<close> fee makes the whole expression \<open>NULL\<close>.
\<close>

definition subtotals_of :: "database \<Rightarrow> string \<Rightarrow> int list" where
  "subtotals_of db oid = map oi_subtotal (filter (\<lambda>i. oi_order_id i = oid) (order_items db))"

definition recomputed_total :: "database \<Rightarrow> string \<Rightarrow> int option \<Rightarrow> int option" where
  "recomputed_total db oid fee =
     map_option (\<lambda>f. coalesce (sql_sum (subtotals_of db oid)) 0 + f) fee"

text \<open>
  \<open>UPDATE orders SET total_amount = \<dots>, updated_at = now() WHERE id = oid\<close>, row by row.
  \<open>total_amount\<close> is \<open>DECIMAL(10,2) NOT NULL\<close>: a \<open>NULL\<close> or an out-of-range value aborts the
  statement.
\<close>

fun set_order_totals :: "database \<Rightarrow> nat \<Rightarrow> string \<Rightarrow> order list \<Rightarrow> db_error + order list" where
  "set_order_totals db now oid [] = Inr []"
| "set_order_totals db now oid (r # rs) =
     (if o_id r = oid then
        (case recomputed_total db oid (delivery_fee r) of
           None \<Rightarrow> Inl NotNullViolation
         | Some t \<Rightarrow>
             if decimal_10_2 t then
               (case set_order_totals db now oid rs of
                  Inl e \<Rightarrow> Inl e
                | Inr rs' \<Rightarrow> Inr (r\<lparr>total_amount := t, o_updated_at := now\<rparr> # rs'))
             else Inl NumericOverflow)
      else
        (case set_order_totals db now oid rs of
           Inl e \<Rightarrow> Inl e
         | Inr rs' \<Rightarrow> Inr (r # rs')))"

text \<open>
  The trigger function itself. \<open>NEW\<close> is absent in a delete trigger and \<open>OLD\<close> in an insert
  trigger; \<open>order_id\<close> is \<open>NOT NULL\<close>, so \<open>NEW.order_id\<close> is \<open>NULL\<close> only when \<open>NEW\<close> is.
\<close>

definition update_order_total ::
  "nat \<Rightarrow> order_item option \<Rightarrow> order_item option \<Rightarrow> database \<Rightarrow> db_error + database" where
  "update_order_total now NEW OLD db =
     (case coalesce_opt (map_option oi_order_id NEW) (map_option oi_order_id OLD) of
        None \<Rightarrow> Inr db
      | Some oid \<Rightarrow>
          (case set_order_totals db now oid (orders db) of
             Inl e \<Rightarrow> Inl e
           | Inr os \<Rightarrow> Inr (db\<lparr>orders := os\<rparr>)))"

subsection \<open>Statements on \<open>order_items\<close>, each followed by its \<open>AFTER \<dots> FOR EACH ROW\<close> trigger\<close>

text \<open>
  A statement that raises leaves the database as it was (the result is \<open>Inl\<close>). A row is
  checked against the table's definition: the range of its \<open>DECIMAL(10,2)\<close> columns,
  \<open>CHECK (quantity > 0)\<close>, and the two foreign keys, \<open>order_id\<close> into \<open>orders\<close> and
  \<open>product_id\<close> into \<open>products\<close>. The primary key is checked where the row is stored.
\<close>

definition with_id :: "string \<Rightarrow> order_item_row \<Rightarrow> order_item" where
  "with_id k row =
     \<lparr>oi_order_id = oi_order_id row, oi_product_id = oi_product_id row,
      oi_quantity = oi_quantity row, oi_unit_price = oi_unit_price row,
      oi_subtotal = oi_subtotal row, oi_id = k\<rparr>"

definition row_acceptable :: "database \<Rightarrow> order_item_row \<Rightarrow> db_error option" where
  "row_acceptable db row =
     (if \<not> decimal_10_2 (oi_unit_price row) \<or> \<not> decimal_10_2 (oi_subtotal row)
        then Some NumericOverflow
      else if \<not> oi_quantity row > 0 then Some CheckViolation
      else if oi_order_id row \<notin> set (map o_id (orders db)) then Some ForeignKeyViolation
      else if oi_product_id row \<notin> set (map pr_id (products db)) then Some ForeignKeyViolation
      else None)"

definition insert_order_item ::
  "nat \<Rightarrow> string \<Rightarrow> order_item_row \<Rightarrow> database \<Rightarrow> db_error + database" where
  "insert_order_item now new_id row db =
     (if new_id \<in> set (map oi_id (order_items db)) then Inl UniqueViolation
      else case row_acceptable db row of
        Some e \<Rightarrow> Inl e
      | None \<Rightarrow>
          update_order_total now (Some (with_id new_id row)) None
            (db\<lparr>order_items := order_items db @ [with_id new_id row]\<rparr>))"

definition update_order_item ::
  "nat \<Rightarrow> string \<Rightarrow> order_item_row \<Rightarrow> database \<Rightarrow> db_error + database" where
  "update_order_item now k row db =
     (case find (\<lambda>i. oi_id i = k) (order_items db) of
        None \<Rightarrow> Inr db
      | Some old \<Rightarrow>
          (case row_acceptable db row of
             Some e \<Rightarrow> Inl e
           | None \<Rightarrow>
               update_order_total now (Some (with_id k row)) (Some old)
                 (db\<lparr>order_items :=
                       map (\<lambda>i. if oi_id i = k then with_id k row else i) (order_items db)\<rparr>)))"

definition delete_order_item :: "nat \<Rightarrow> string \<Rightarrow> database \<Rightarrow> db_error + database" where
  "delete_order_item now k db =
     (case find (\<lambda>i. oi_id i = k) (order_items db) of
        None \<Rightarrow> Inr db
      | Some old \<Rightarrow>
          update_order_total now None (Some old)
            (db\<lparr>order_items := filter (\<lambda>i. oi_id i \<noteq> k) (order_items db)\<rparr>))"

datatype item_mutation =
    InsertItem string order_item_row
  | UpdateItem string order_item_row
  | DeleteItem string

fun apply_item_mutation :: "nat \<Rightarrow> item_mutation \<Rightarrow> database \<Rightarrow> db_error + database" where
  "apply_item_mutation now (InsertItem new_id row) db = insert_order_item now new_id row db"
| "apply_item_mutation now (UpdateItem k row) db = update_order_item now k row db"
| "apply_item_mutation now (DeleteItem k) db = delete_order_item now k db"

text \<open>The property the trigger is there for, read off one order row.\<close>

definition order_total_consistent :: "database \<Rightarrow> order \<Rightarrow> bool" where
  "order_total_consistent db r \<longleftrightarrow>
     Some (total_amount r) =
       map_option (\<lambda>f. sum_list (subtotals_of db (o_id r)) + f) (delivery_fee r)"

definition total_consistent_at :: "database \<Rightarrow> string \<Rightarrow> bool" where
  "total_consistent_at db oid \<longleftrightarrow>
     list_all (order_total_consistent db) (filter (\<lambda>r. o_id r = oid) (orders db))"

text \<open>
  A run of statements, each with the clock reading of its transaction. A statement that
  raises is rolled back and the next one sees the database as it was.
\<close>

fun run_statements :: "database \<Rightarrow> (nat \<times> item_mutation) list \<Rightarrow> database" where
  "run_statements db [] = db"
| "run_statements db ((now, m) # ms) =
     run_statements
       (case apply_item_mutation now m db of Inl e \<Rightarrow> db | Inr db' \<Rightarrow> db') ms"

text \<open>
  The order whose total the trigger recomputes after a statement, if the statement touches a
  row at all.
\<close>

fun recomputed_order :: "item_mutation \<Rightarrow> database \<Rightarrow> string option" where
  "recomputed_order (InsertItem new_id row) db = Some (oi_order_id row)"
| "recomputed_order (UpdateItem k row) db =
     map_option (\<lambda>old. oi_order_id row) (find (\<lambda>i. oi_id i = k) (order_items db))"
| "recomputed_order (DeleteItem k) db =
     map_option oi_order_id (find (\<lambda>i. oi_id i = k) (order_items db))"

text \<open>An \<open>UPDATE\<close> that re-assigns an item of order \<open>oid\<close> to another order.\<close>

definition moves_item_away :: "item_mutation \<Rightarrow> database \<Rightarrow> string \<Rightarrow> bool" where
  "moves_item_away m db oid =
     (case m of
        UpdateItem k row \<Rightarrow>
          (case find (\<lambda>i. oi_id i = k) (order_items db) of
             Some old \<Rightarrow> oi_order_id old = oid \<and> oi_order_id row \<noteq> oid
           | None \<Rightarrow> False)
      | _ \<Rightarrow> False)"

section \<open>The payment service (\<open>PaymentService\<close>)\<close>

text \<open>
  What the outside world supplies to one call: the clock reading, the key generated for an
  inserted row, the locale rendering of a number, and for each backend request the error it
  reports, if any (a rejected policy, a violated constraint, a lost connection). The client
  library reports errors as values; the service decides what to do with them.
\<close>

record env =
  clock :: nat
  new_uuid :: string
  item_uuid :: "nat \<Rightarrow> string"
  toLocaleString :: "int \<Rightarrow> string"
  payments_insert_error :: "db_error option"
  payments_select_error :: "db_error option"
  payments_update_error :: "db_error option"
  orders_insert_error :: "db_error option"
  orders_update_error :: "db_error option"
  order_items_insert_error :: "db_error option"
  products_query_error :: "db_error option"
  products_fallback_error :: "db_error option"

record CustomerInfo =
  ci_name :: string
  ci_email :: string
  ci_phone :: string

record PaymentRequest =
  orderId :: string
  amount :: int
  currency :: string
  paymentMethod :: string
  customerInfo :: CustomerInfo
  metadata :: "(string \<times> string) list option"

record PaymentResponse =
  success :: bool
  paymentId :: "string option"
  redirectUrl :: "string option"
  message :: string
  error :: "string option"

record PaymentStatus =
  ps_status :: pstatus
  transactionId :: "string option"
  ps_message :: string
  updatedAt :: nat

subsection \<open>Backend requests on \<open>payments\<close> and \<open>orders\<close>\<close>

definition new_payment_row :: "env \<Rightarrow> PaymentRequest \<Rightarrow> string \<Rightarrow> payment" where
  "new_payment_row e request method =
     \<lparr>pay_id = new_uuid e, pay_order_id = orderId request, pay_method = method,
      pay_amount = amount request, pay_currency = currency request, status = Pending,
      transaction_id = None, pay_customer_name = ci_name (customerInfo request),
      pay_customer_email = ci_email (customerInfo request),
      pay_customer_phone = ci_phone (customerInfo request),
      pay_metadata = metadata request, pay_updated_at = clock e\<rparr>"

text \<open>\<open>.insert([row]).select().single()\<close> on \<open>payments\<close>: the stored row, or the error.\<close>

definition insert_payment :: "env \<Rightarrow> payment \<Rightarrow> database \<Rightarrow> db_error + payment \<times> database" where
  "insert_payment e row db =
     (case payments_insert_error e of
        Some err \<Rightarrow> Inl err
      | None \<Rightarrow>
          if pay_id row \<in> set (map pay_id (payments db)) then Inl UniqueViolation
          else if pay_order_id row \<notin> set (map o_id (orders db)) then Inl ForeignKeyViolation
          else if \<not> decimal_10_2 (pay_amount row) then Inl NumericOverflow
          else Inr (row, db\<lparr>payments := payments db @ [row]\<rparr>))"

text \<open>\<open>.select(\<dots>).eq('id', paymentId).single()\<close>: exactly one row, or an error.\<close>

definition select_payment_single :: "env \<Rightarrow> string \<Rightarrow> database \<Rightarrow> db_error + payment" where
  "select_payment_single e pid db =
     (case payments_select_error e of
        Some err \<Rightarrow> Inl err
      | None \<Rightarrow>
          (case filter (\<lambda>p. pay_id p = pid) (payments db) of
             [p] \<Rightarrow> Inr p
           | _ \<Rightarrow> Inl NoSingleRow))"

text \<open>\<open>if (transactionId)\<close>: a string counts when it is present and not empty.\<close>

definition truthy :: "string option \<Rightarrow> bool" where
  "truthy s = (case s of None \<Rightarrow> False | Some t \<Rightarrow> t \<noteq> [])"

subsection \<open>The service methods\<close>

text \<open>\<open>updateOrderPaymentStatus\<close> catches and logs its own error: the caller never sees it.\<close>

definition updateOrderPaymentStatus :: "env \<Rightarrow> string \<Rightarrow> pstatus \<Rightarrow> database \<Rightarrow> database" where
  "updateOrderPaymentStatus e oid paymentStatus db =
     (case orders_update_error e of
        Some err \<Rightarrow> db
      | None \<Rightarrow>
          db\<lparr>orders :=
               map (\<lambda>r. if o_id r = oid
                         then r\<lparr>payment_status := paymentStatus, o_updated_at := clock e\<rparr>
                         else r)
                   (orders db)\<rparr>)"

definition processOrangeMoneyPayment ::
  "env \<Rightarrow> PaymentRequest \<Rightarrow> database \<Rightarrow> PaymentResponse \<times> database" where
  "processOrangeMoneyPayment e request db =
     (case insert_payment e (new_payment_row e request ''orange_money'') db of
        Inl err \<Rightarrow>
          (\<lparr>success = False, paymentId = None, redirectUrl = None,
            message = ''Failed to initiate Orange Money payment'',
            error = Some (error_message err)\<rparr>, db)
      | Inr (payment, db1) \<Rightarrow>
          (\<lparr>success = True, paymentId = Some (pay_id payment), redirectUrl = None,
            message = ''Orange Money payment initiated. Please dial *144*''
                      @ ci_phone (customerInfo request)
                      @ ''# to complete payment of Le ''
                      @ toLocaleString e (amount request),
            error = None\<rparr>,
           updateOrderPaymentStatus e (orderId request) Pending db1))"

definition processAfriMoneyPayment ::
  "env \<Rightarrow> PaymentRequest \<Rightarrow> database \<Rightarrow> PaymentResponse \<times> database" where
  "processAfriMoneyPayment e request db =
     (case insert_payment e (new_payment_row e request ''afrimoney'') db of
        Inl err \<Rightarrow>
          (\<lparr>success = False, paymentId = None, redirectUrl = None,
            message = ''Failed to initiate AfriMoney payment'',
            error = Some (error_message err)\<rparr>, db)
      | Inr (payment, db1) \<Rightarrow>
          (\<lparr>success = True, paymentId = Some (pay_id payment), redirectUrl = None,
            message = ''AfriMoney payment initiated. Please check your phone for payment instructions.'',
            error = None\<rparr>,
           updateOrderPaymentStatus e (orderId request) Pending db1))"

definition processStripePayment ::
  "env \<Rightarrow> PaymentRequest \<Rightarrow> database \<Rightarrow> PaymentResponse \<times> database" where
  "processStripePayment e request db =
     (case insert_payment e (new_payment_row e request ''stripe'') db of
        Inl err \<Rightarrow>
          (\<lparr>success = False, paymentId = None, redirectUrl = None,
            message = ''Failed to initiate Stripe payment'',
            error = Some (error_message err)\<rparr>, db)
      | Inr (payment, db1) \<Rightarrow>
          (\<lparr>success = True, paymentId = Some (pay_id payment),
            redirectUrl = Some (''/payment/stripe/'' @ pay_id payment),
            message = ''Redirecting to Stripe checkout...'',
            error = None\<rparr>,
           updateOrderPaymentStatus e (orderId request) Pending db1))"

text \<open>
  The request's method is a string at run time (it is read from the page's query string),
  so the \<open>default\<close> branch of the \<open>switch\<close> is part of the model.
\<close>

definition processPayment ::
  "env \<Rightarrow> PaymentRequest \<Rightarrow> database \<Rightarrow> PaymentResponse \<times> database" where
  "processPayment e request db =
     (if paymentMethod request = ''orange_money'' then processOrangeMoneyPayment e request db
      else if paymentMethod request = ''afrimoney'' then processAfriMoneyPayment e request db
      else if paymentMethod request = ''stripe'' then processStripePayment e request db
      else
        (\<lparr>success = False, paymentId = None, redirectUrl = None,
          message = ''The selected payment method is not supported'',
          error = Some ''Invalid payment method''\<rparr>, db))"

fun status_literal :: "pstatus \<Rightarrow> string" where
  "status_literal Pending = ''pending''"
| "status_literal Completed = ''completed''"
| "status_literal Failed = ''failed''"
| "status_literal Cancelled = ''cancelled''"

definition getStatusMessage :: "string \<Rightarrow> string" where
  "getStatusMessage s =
     (if s = ''pending'' then ''Payment is being processed''
      else if s = ''completed'' then ''Payment completed successfully''
      else if s = ''failed'' then ''Payment failed''
      else if s = ''cancelled'' then ''Payment was cancelled''
      else ''Unknown status'')"

text \<open>
  \<open>checkPaymentStatus\<close>: the body of the \<open>try\<close> block either returns or throws (\<open>Inl\<close>);
  the \<open>catch\<close> block turns every throw into a returned value.
\<close>

definition checkPaymentStatus_try :: "env \<Rightarrow> string \<Rightarrow> database \<Rightarrow> db_error + PaymentStatus" where
  "checkPaymentStatus_try e pid db =
     (case select_payment_single e pid db of
        Inl err \<Rightarrow> Inl err
      | Inr payment \<Rightarrow>
          Inr \<lparr>ps_status = status payment, transactionId = transaction_id payment,
               ps_message = getStatusMessage (status_literal (status payment)),
               updatedAt = pay_updated_at payment\<rparr>)"

definition checkPaymentStatus :: "env \<Rightarrow> string \<Rightarrow> database \<Rightarrow> PaymentStatus" where
  "checkPaymentStatus e pid db =
     (case checkPaymentStatus_try e pid db of
        Inr result \<Rightarrow> result
      | Inl err \<Rightarrow>
          \<lparr>ps_status = Failed, transactionId = None,
           ps_message = ''Failed to check payment status'', updatedAt = clock e\<rparr>)"

text \<open>
  \<open>updatePaymentStatus\<close>: the update of the payment row is unconditional (it matches on the
  id alone); the lookup of the order id ignores its own error and skips the order when it
  finds no row.
\<close>

definition updatePaymentStatus ::
  "env \<Rightarrow> string \<Rightarrow> pstatus \<Rightarrow> string option \<Rightarrow> database \<Rightarrow> bool \<times> database" where
  "updatePaymentStatus e pid s txn db =
     (case payments_update_error e of
        Some err \<Rightarrow> (False, db)
      | None \<Rightarrow>
          (let db1 = db\<lparr>payments :=
                          map (\<lambda>p. if pay_id p = pid
                                    then p\<lparr>status := s, pay_updated_at := clock e,
                                           transaction_id :=
                                             (if truthy txn then txn else transaction_id p)\<rparr>
                                    else p)
                              (payments db)\<rparr>
           in case select_payment_single e pid db1 of
                Inr payment \<Rightarrow> (True, updateOrderPaymentStatus e (pay_order_id payment) s db1)
              | Inl err \<Rightarrow> (True, db1)))"

definition simulatePaymentCompletion :: "env \<Rightarrow> string \<Rightarrow> bool \<Rightarrow> database \<Rightarrow> bool \<times> database" where
  "simulatePaymentCompletion e pid succeeded db =
     updatePaymentStatus e pid
       (if succeeded then Completed else Failed)
       (if succeeded then Some (''txn_'' @ show_nat (clock e)) else None)
       db"

subsection \<open>The service as a transition system on the database\<close>

text \<open>
  One call of a public method and the database it leaves behind. \<open>checkPaymentStatus\<close> only
  reads; \<open>processPayment\<close> and \<open>updatePaymentStatus\<close> return their answer next to the database.
\<close>

datatype service_call =
    ProcessPayment PaymentRequest
  | CheckPaymentStatus string
  | UpdatePaymentStatus string pstatus "string option"
  | SimulatePaymentCompletion string bool

fun service_step :: "env \<Rightarrow> service_call \<Rightarrow> database \<Rightarrow> database" where
  "service_step e (ProcessPayment request) db = snd (processPayment e request db)"
| "service_step e (CheckPaymentStatus pid) db = (let observed = checkPaymentStatus e pid db in db)"
| "service_step e (UpdatePaymentStatus pid s txn) db = snd (updatePaymentStatus e pid s txn db)"
| "service_step e (SimulatePaymentCompletion pid succeeded) db =
     snd (simulatePaymentCompletion e pid succeeded db)"

fun service_run :: "database \<Rightarrow> (env \<times> service_call) list \<Rightarrow> database" where
  "service_run db [] = db"
| "service_run db ((e, c) # cs) = service_run (service_step e c db) cs"

definition terminal :: "pstatus \<Rightarrow> bool" where
  "terminal s \<longleftrightarrow> s = Completed \<or> s = Failed \<or> s = Cancelled"

definition payment_status_of :: "database \<Rightarrow> string \<Rightarrow> pstatus option" where
  "payment_status_of db pid = map_option status (find (\<lambda>p. pay_id p = pid) (payments db))"

definition order_payment_status_of :: "database \<Rightarrow> string \<Rightarrow> pstatus option" where
  "order_payment_status_of db oid =
     map_option payment_status (find (\<lambda>r. o_id r = oid) (orders db))"

section \<open>The payment screen (\<open>PaymentProcessor\<close>)\<close>

text \<open>
  The component's state hooks, together with what the browser holds for it: the interval
  timer that the effect installed (with its period in milliseconds), the address the page was
  sent to, and whether the component is still mounted. Toasts and the \<open>onSuccess\<close>/\<open>onError\<close>
  callbacks are notifications to the parent page and are left out.
\<close>

record ProcessorState =
  processing :: bool
  cur_paymentId :: "string option"
  paymentStatus :: "PaymentStatus option"
  progress :: nat
  pp_message :: string
  interval :: "nat option"
  location_href :: "string option"
  mounted :: bool

definition initialProcessor :: ProcessorState where
  "initialProcessor =
     \<lparr>processing = False, cur_paymentId = None, paymentStatus = None, progress = 0,
      pp_message = [], interval = None, location_href = None, mounted = True\<rparr>"

text \<open>
  The effect with dependency list \<open>[paymentId]\<close>: its body installs the interval when a payment
  id is set, its cleanup clears it. React runs the cleanup and then the body again whenever
  \<open>paymentId\<close> has changed between two renders, and runs the cleanup when the component is
  unmounted.
\<close>

definition effect_cleanup :: "ProcessorState \<Rightarrow> ProcessorState" where
  "effect_cleanup st = st\<lparr>interval := None\<rparr>"

definition payment_effect :: "ProcessorState \<Rightarrow> ProcessorState" where
  "payment_effect st =
     (case cur_paymentId st of Some pid \<Rightarrow> st\<lparr>interval := Some 3000\<rparr> | None \<Rightarrow> st)"

definition setPaymentId :: "string option \<Rightarrow> ProcessorState \<Rightarrow> ProcessorState" where
  "setPaymentId v st =
     (if cur_paymentId st = v then st
      else payment_effect (effect_cleanup (st\<lparr>cur_paymentId := v\<rparr>)))"

text \<open>
  \<open>initiatePayment\<close>, with \<open>response\<close> the answer of \<open>paymentService.processPayment\<close>. The
  progress values shown while the request is under way are overwritten before it returns.
\<close>

definition initiatePayment :: "PaymentResponse \<Rightarrow> ProcessorState \<Rightarrow> ProcessorState" where
  "initiatePayment response st =
     (if success response then
        (let st1 = setPaymentId (paymentId response)
                     (st\<lparr>processing := True, progress := 60, pp_message := message response\<rparr>)
         in if truthy (redirectUrl response)
            then st1\<lparr>location_href := redirectUrl response, processing := False\<rparr>
            else st1\<lparr>pp_message := ''Payment initiated. Please complete on your mobile device.'',
                     progress := 80, processing := False\<rparr>)
      else st\<lparr>pp_message := ''Payment failed to initiate'', progress := 0,
              processing := False\<rparr>)"

text \<open>
  The component's \<open>checkPaymentStatus\<close>, which the interval calls, with \<open>observed\<close> the answer
  of the service. No branch touches the timer.
\<close>

definition checkStatus :: "PaymentStatus \<Rightarrow> ProcessorState \<Rightarrow> ProcessorState" where
  "checkStatus observed st =
     (case cur_paymentId st of
        None \<Rightarrow> st
      | Some pid \<Rightarrow>
          (let st1 = st\<lparr>paymentStatus := Some observed\<rparr>
           in if ps_status observed = Completed
              then st1\<lparr>progress := 100, pp_message := ''Payment completed successfully!''\<rparr>
              else if ps_status observed = Failed \<or> ps_status observed = Cancelled
              then st1\<lparr>progress := 0, pp_message := ps_message observed\<rparr>
              else st1))"

definition retryPayment :: "PaymentResponse \<Rightarrow> ProcessorState \<Rightarrow> ProcessorState" where
  "retryPayment response st =
     initiatePayment response
       ((setPaymentId None st)\<lparr>paymentStatus := None, progress := 0, pp_message := []\<rparr>)"

definition unmount :: "ProcessorState \<Rightarrow> ProcessorState" where
  "unmount st = (effect_cleanup st)\<lparr>mounted := False\<rparr>"

datatype view_event =
    Initiate PaymentResponse
  | Tick PaymentStatus
  | Retry PaymentResponse
  | Unmount

fun view_step :: "ProcessorState \<Rightarrow> view_event \<Rightarrow> ProcessorState" where
  "view_step st (Initiate response) =
     (if mounted st then initiatePayment response st else st)"
| "view_step st (Tick observed) = (if mounted st then checkStatus observed st else st)"
| "view_step st (Retry response) = (if mounted st then retryPayment response st else st)"
| "view_step st Unmount = (if mounted st then unmount st else st)"

definition view_run :: "view_event list \<Rightarrow> ProcessorState" where
  "view_run evs = foldl view_step initialProcessor evs"

text \<open>When the timer is running, as the effect and its cleanup leave it.\<close>

definition timer_as_installed :: "ProcessorState \<Rightarrow> bool" where
  "timer_as_installed st \<longleftrightarrow>
     interval st = (if mounted st \<and> cur_paymentId st \<noteq> None then Some 3000 else None)"

section \<open>The public product listing (\<open>fetchProducts\<close>) under row-level security\<close>

text \<open>
  \<open>viewer\<close> is \<open>auth.uid()\<close>: the signed-in user, or nothing for an anonymous visitor, for whom
  every comparison with \<open>auth.uid()\<close> is \<open>NULL\<close> and admits no row. Policies of one table are
  permissive: a row is visible when any of them admits it.
\<close>

definition has_role :: "database \<Rightarrow> string option \<Rightarrow> string \<Rightarrow> bool" where
  "has_role db viewer role =
     (case viewer of None \<Rightarrow> False | Some uid \<Rightarrow> (uid, role) \<in> set (user_roles db))"

text \<open>
  Policies on \<open>vendors\<close>: verified vendors are public, a vendor sees its own profile, an
  administrator sees all.
\<close>

definition vendors_select_policy :: "database \<Rightarrow> string option \<Rightarrow> vendor \<Rightarrow> bool" where
  "vendors_select_policy db viewer v \<longleftrightarrow>
     verification_status v = Some ''verified'' \<or>
     viewer = Some (v_user_id v) \<or>
     has_role db viewer ''admin''"

definition visible_vendors :: "database \<Rightarrow> string option \<Rightarrow> vendor list" where
  "visible_vendors db viewer = filter (vendors_select_policy db viewer) (vendors db)"

text \<open>
  Policies on \<open>products\<close>: "Everyone can view active products", the vendor's own products,
  the administrator, and "Public can view active products" of verified vendors. The
  sub-selects on \<open>vendors\<close> read through the viewer's own view of that table.
\<close>

definition products_select_policy :: "database \<Rightarrow> string option \<Rightarrow> product \<Rightarrow> bool" where
  "products_select_policy db viewer p \<longleftrightarrow>
     is_active p = Some True \<or>
     list_ex (\<lambda>v. v_id v = pr_vendor_id p \<and> viewer = Some (v_user_id v))
       (visible_vendors db viewer) \<or>
     has_role db viewer ''admin'' \<or>
     (is_active p = Some True \<and>
      list_ex (\<lambda>v. v_id v = pr_vendor_id p \<and> verification_status v = Some ''verified'')
        (visible_vendors db viewer))"

text \<open>
  A row of the answer: the product with the embedded \<open>vendors (business_name, location)\<close>,
  which is \<open>null\<close> when the viewer may not see the vendor's row.
\<close>

record listed_product =
  listed :: product
  embedded_vendor :: "(string \<times> string option) option"

definition embed_vendor :: "database \<Rightarrow> string option \<Rightarrow> product \<Rightarrow> listed_product" where
  "embed_vendor db viewer p =
     \<lparr>listed = p,
      embedded_vendor =
        map_option (\<lambda>v. (business_name v, location v))
          (find (\<lambda>v. v_id v = pr_vendor_id p) (visible_vendors db viewer))\<rparr>"

text \<open>The fallback query: \<open>.eq('is_active', true)\<close> only.\<close>

definition select_active_products ::
  "env \<Rightarrow> database \<Rightarrow> string option \<Rightarrow> db_error + listed_product list" where
  "select_active_products e db viewer =
     (case products_fallback_error e of
        Some err \<Rightarrow> Inl err
      | None \<Rightarrow>
          Inr (map (embed_vendor db viewer)
                 (filter (\<lambda>p. is_active p = Some True)
                    (filter (products_select_policy db viewer) (products db)))))"

text \<open>The first query: \<open>.eq('is_active', true).not('vendors', 'is', null)\<close>.\<close>

definition select_active_products_with_vendor ::
  "env \<Rightarrow> database \<Rightarrow> string option \<Rightarrow> db_error + listed_product list" where
  "select_active_products_with_vendor e db viewer =
     (case products_query_error e of
        Some err \<Rightarrow> Inl err
      | None \<Rightarrow>
          Inr (filter (\<lambda>row. embedded_vendor row \<noteq> None)
                 (map (embed_vendor db viewer)
                    (filter (\<lambda>p. is_active p = Some True)
                       (filter (products_select_policy db viewer) (products db))))))"

text \<open>
  \<open>fetchProducts\<close>, as the list it hands to \<open>setProducts\<close>: the first query filtered once more
  for a vendor; if that query fails, the fallback query unfiltered; if both fail, nothing.
\<close>

definition fetchProducts :: "env \<Rightarrow> database \<Rightarrow> string option \<Rightarrow> listed_product list" where
  "fetchProducts e db viewer =
     (case select_active_products_with_vendor e db viewer of
        Inr data \<Rightarrow> filter (\<lambda>product. embedded_vendor product \<noteq> None) data
      | Inl err \<Rightarrow>
          (case select_active_products e db viewer of
             Inr fallbackData \<Rightarrow> fallbackData
           | Inl fallbackError \<Rightarrow> []))"

section \<open>The column constraint on \<open>orders.payment_status\<close>\<close>

text \<open>
  Two migrations define the table \<open>orders\<close>. The first one (20250724185430) creates it with
  \<open>CREATE TABLE\<close>; the one that adds payments repeats it with \<open>CREATE TABLE IF NOT EXISTS\<close> and
  a longer list in the \<open>CHECK\<close> of \<open>payment_status\<close>. The second migration refers to
  \<open>public.products\<close>, \<open>public.vendors\<close> and \<open>public.has_role\<close>, which only the first one
  creates, so it runs on a database that the first one has already set up.

  A catalog maps a table to the literals that the \<open>CHECK (payment_status IN (\<dots>))\<close> of its
  definition lists.
\<close>

type_synonym catalog = "string \<rightharpoonup> string list"

datatype ddl =
    CreateTable string "string list"
  | CreateTableIfNotExists string "string list"

datatype ddl_error = RelationAlreadyExists string

fun run_ddl :: "catalog \<Rightarrow> ddl \<Rightarrow> ddl_error + catalog" where
  "run_ddl cat (CreateTable t lits) =
     (case cat t of Some old \<Rightarrow> Inl (RelationAlreadyExists t) | None \<Rightarrow> Inr (cat(t \<mapsto> lits)))"
| "run_ddl cat (CreateTableIfNotExists t lits) =
     (case cat t of Some old \<Rightarrow> Inr cat | None \<Rightarrow> Inr (cat(t \<mapsto> lits)))"

fun run_migrations :: "catalog \<Rightarrow> ddl list \<Rightarrow> ddl_error + catalog" where
  "run_migrations cat [] = Inr cat"
| "run_migrations cat (d # ds) =
     (case run_ddl cat d of Inl e \<Rightarrow> Inl e | Inr cat' \<Rightarrow> run_migrations cat' ds)"

definition initial_schema_orders :: ddl where
  "initial_schema_orders = CreateTable ''orders'' [''pending'', ''completed'', ''failed'']"

definition payments_schema_orders :: ddl where
  "payments_schema_orders =
     CreateTableIfNotExists ''orders'' [''pending'', ''completed'', ''failed'', ''cancelled'']"

text \<open>
  The column is \<open>TEXT DEFAULT 'pending'\<close> without \<open>NOT NULL\<close>. A \<open>CHECK\<close> rejects a row only when
  its condition is false; for \<open>NULL\<close> the condition is unknown and the row passes.
\<close>

definition check_in :: "string list \<Rightarrow> string option \<Rightarrow> bool" where
  "check_in lits v = (case v of None \<Rightarrow> True | Some s \<Rightarrow> s \<in> set lits)"

definition can_store :: "ddl_error + catalog \<Rightarrow> string \<Rightarrow> string option \<Rightarrow> bool" where
  "can_store result t v =
     (case result of
        Inl e \<Rightarrow> False
      | Inr cat \<Rightarrow> (case cat t of None \<Rightarrow> False | Some lits \<Rightarrow> check_in lits v))"

definition migrated :: "ddl_error + catalog" where
  "migrated = run_migrations Map.empty [initial_schema_orders, payments_schema_orders]"

section \<open>Checkout (\<open>onSubmit\<close>)\<close>

record CheckoutFormData =
  full_name :: string
  email :: string
  phone :: string
  form_delivery_address :: string
  form_payment_method :: string
  form_notes :: "string option"

datatype checkout_result =
    AuthenticationRequired
  | OrderFailed string
  | OrderPlaced string

text \<open>The objects that \<open>onSubmit\<close> builds from the cart, one per cart item.\<close>

definition orderItems :: "string \<Rightarrow> CartItem list \<Rightarrow> order_item_row list" where
  "orderItems oid cart_items =
     map (\<lambda>item.
            \<lparr>oi_order_id = oid, oi_product_id = productId item, oi_quantity = quantity item,
             oi_unit_price = price item, oi_subtotal = price item * quantity item\<rparr>)
         cart_items"

definition orderData :: "env \<Rightarrow> string \<Rightarrow> CheckoutFormData \<Rightarrow> int \<Rightarrow> CartState \<Rightarrow> order" where
  "orderData e uid data deliveryFee cart =
     \<lparr>o_id = new_uuid e, customer_id = uid, total_amount = total' cart + deliveryFee,
      delivery_address = form_delivery_address data, delivery_fee = Some deliveryFee,
      o_status = ''pending'', payment_status = Pending,
      payment_method = Some (form_payment_method data),
      o_notes = (if truthy (form_notes data) then form_notes data else None),
      o_customer_name = full_name data, o_customer_email = email data,
      o_customer_phone = phone data, o_updated_at = clock e\<rparr>"

text \<open>
  \<open>.from('orders').insert([orderData]).select().single()\<close>. Where the first migration's
  definition of \<open>orders\<close> is still in force, the request names customer columns that the
  table lacks and is refused: one of the errors that \<open>orders_insert_error\<close> stands for.
  The row itself is checked against the range of its decimal columns, the \<open>CHECK\<close>s on
  \<open>status\<close> and \<open>payment_method\<close>, and the primary key.
\<close>

definition insert_order :: "env \<Rightarrow> order \<Rightarrow> database \<Rightarrow> db_error + order \<times> database" where
  "insert_order e row db =
     (case orders_insert_error e of
        Some err \<Rightarrow> Inl err
      | None \<Rightarrow>
          if \<not> decimal_10_2 (total_amount row) \<or>
             \<not> decimal_10_2 (coalesce (delivery_fee row) 0) then Inl NumericOverflow
          else if \<not> check_in [''pending'', ''confirmed'', ''dispatched'', ''in_transit'',
                                ''delivered'', ''cancelled''] (Some (o_status row)) \<or>
                  \<not> check_in [''orange_money'', ''afrimoney'', ''stripe''] (payment_method row)
            then Inl CheckViolation
          else if o_id row \<in> set (map o_id (orders db)) then Inl UniqueViolation
          else Inr (row, db\<lparr>orders := orders db @ [row]\<rparr>))"

text \<open>
  \<open>.from('order_items').insert(orderItems)\<close>: one statement for all rows. The rows are
  checked and stored, then the \<open>AFTER INSERT\<close> trigger runs once for each of them; an error
  anywhere aborts the statement.
\<close>

fun first_error :: "database \<Rightarrow> order_item_row list \<Rightarrow> db_error option" where
  "first_error db [] = None"
| "first_error db (row # rows) =
     (case row_acceptable db row of Some e \<Rightarrow> Some e | None \<Rightarrow> first_error db rows)"

fun fire_insert_triggers :: "nat \<Rightarrow> order_item list \<Rightarrow> database \<Rightarrow> db_error + database" where
  "fire_insert_triggers now [] db = Inr db"
| "fire_insert_triggers now (i # rest) db =
     (case update_order_total now (Some i) None db of
        Inl e \<Rightarrow> Inl e
      | Inr db' \<Rightarrow> fire_insert_triggers now rest db')"

definition insert_order_items ::
  "env \<Rightarrow> order_item_row list \<Rightarrow> database \<Rightarrow> db_error + database" where
  "insert_order_items e rows db =
     (case order_items_insert_error e of
        Some err \<Rightarrow> Inl err
      | None \<Rightarrow>
          (let new_items = map (\<lambda>(k, row). with_id (item_uuid e k) row) (enumerate 0 rows)
           in if \<not> distinct (map oi_id (order_items db @ new_items)) then Inl UniqueViolation
              else case first_error db rows of
                Some err \<Rightarrow> Inl err
              | None \<Rightarrow>
                  fire_insert_triggers (clock e) new_items
                    (db\<lparr>order_items := order_items db @ new_items\<rparr>)))"

text \<open>\<open>error.message || "Failed to place order. Please try again."\<close>\<close>

definition failure_text :: "db_error \<Rightarrow> string" where
  "failure_text err =
     (if error_message err = [] then ''Failed to place order. Please try again.''
      else error_message err)"

text \<open>
  \<open>onSubmit\<close>: the outcome shown to the customer, the cart and the database afterwards. The
  two inserts are separate requests: when the second fails the order row stays.
\<close>

definition onSubmit ::
  "env \<Rightarrow> string option \<Rightarrow> CheckoutFormData \<Rightarrow> int \<Rightarrow> CartState \<Rightarrow> database
     \<Rightarrow> checkout_result \<times> CartState \<times> database" where
  "onSubmit e user data deliveryFee cart db =
     (case user of
        None \<Rightarrow> (AuthenticationRequired, cart, db)
      | Some uid \<Rightarrow>
          (case insert_order e (orderData e uid data deliveryFee cart) db of
             Inl orderError \<Rightarrow> (OrderFailed (failure_text orderError), cart, db)
           | Inr (ord, db1) \<Rightarrow>
               (case insert_order_items e (orderItems (o_id ord) (items cart)) db1 of
                  Inl itemsError \<Rightarrow> (OrderFailed (failure_text itemsError), cart, db1)
                | Inr db2 \<Rightarrow>
                    (OrderPlaced (o_id ord), cartReducer (clock e) cart CLEAR_CART, db2))))"

text \<open>The columns of a stored order item that the cart determines.\<close>

definition item_columns :: "order_item \<Rightarrow> string \<times> string \<times> int \<times> int \<times> int" where
  "item_columns i =
     (oi_order_id i, oi_product_id i, oi_quantity i, oi_unit_price i, oi_subtotal i)"

text \<open>
  A change of live prices: every product keeps its row and gets the price that \<open>f\<close> assigns
  to it, as an \<open>UPDATE products SET price = \<dots>\<close> does.
\<close>

definition reprice :: "(product \<Rightarrow> int) \<Rightarrow> database \<Rightarrow> database" where
  "reprice f db = db\<lparr>products := map (\<lambda>p. p\<lparr>pr_price := f p\<rparr>) (products db)\<rparr>"

section \<open>Sample data for the closed theorems\<close>

definition sample_order :: "string \<Rightarrow> int \<Rightarrow> int option \<Rightarrow> order" where
  "sample_order k t fee =
     \<lparr>o_id = k, customer_id = ''customer-1'', total_amount = t,
      delivery_address = ''12 Farm Road'', delivery_fee = fee, o_status = ''pending'',
      payment_status = Pending, payment_method = Some ''orange_money'', o_notes = None,
      o_customer_name = ''Ada'', o_customer_email = ''ada@example.org'',
      o_customer_phone = ''076000000'', o_updated_at = 0\<rparr>"

definition sample_row :: "string \<Rightarrow> int \<Rightarrow> int \<Rightarrow> order_item_row" where
  "sample_row oid q p =
     \<lparr>oi_order_id = oid, oi_product_id = ''product-1'', oi_quantity = q, oi_unit_price = p,
      oi_subtotal = p * q\<rparr>"

definition empty_db :: database where
  "empty_db =
     \<lparr>orders = [], order_items = [], payments = [], vendors = [], products = [],
      user_roles = []\<rparr>"

definition sample_product :: product where
  "sample_product =
     \<lparr>pr_id = ''product-1'', pr_vendor_id = ''vendor-1'', pr_category_id = ''grains'',
      pr_name = ''Rice'', pr_price = 500, pr_unit = ''kg'', stock_quantity = 100,
      is_active = Some True\<rparr>"

text \<open>
  Two orders without items, A with a delivery fee of 5.00 and B with none, and the one
  product that the sample rows name.
\<close>

definition two_orders :: database where
  "two_orders =
     empty_db\<lparr>orders := [sample_order ''A'' 500 (Some 500), sample_order ''B'' 0 (Some 0)],
              products := [sample_product]\<rparr>"

text \<open>An environment in which no backend request fails.\<close>

definition quiet_env :: "nat \<Rightarrow> string \<Rightarrow> env" where
  "quiet_env t k =
     \<lparr>clock = t, new_uuid = k, item_uuid = (\<lambda>n. k @ ''-'' @ show_nat n),
      toLocaleString = show_nat \<circ> nat,
      payments_insert_error = None, payments_select_error = None,
      payments_update_error = None, orders_insert_error = None, orders_update_error = None,
      order_items_insert_error = None, products_query_error = None,
      products_fallback_error = None\<rparr>"

definition sample_request :: "string \<Rightarrow> string \<Rightarrow> PaymentRequest" where
  "sample_request oid method =
     \<lparr>orderId = oid, amount = 3000, currency = ''SLL'', paymentMethod = method,
      customerInfo = \<lparr>ci_name = ''Ada'', ci_email = ''ada@example.org'', ci_phone = ''076000000''\<rparr>,
      metadata = Some [(''source'', ''web_checkout'')]\<rparr>"


text \<open>
  Order A receives two items with subtotals 10.00 and 15.00; in \<open>item_moved\<close> the first of them
  is then re-assigned to order B by an \<open>UPDATE\<close> of its \<open>order_id\<close>.
\<close>

definition two_items :: database where
  "two_items =
     run_statements two_orders
       [(1, InsertItem ''i1'' (sample_row ''A'' 1 1000)),
        (2, InsertItem ''i2'' (sample_row ''A'' 3 500))]"

definition item_moved :: database where
  "item_moved = run_statements two_items [(3, UpdateItem ''i1'' (sample_row ''B'' 1 1000))]"

text \<open>A payment for order A that has failed, and the same database before the failure.\<close>

definition pending_payment :: database where
  "pending_payment =
     service_run two_orders
       [(quiet_env 1 ''p1'', ProcessPayment (sample_request ''A'' ''orange_money''))]"

definition failed_payment :: database where
  "failed_payment =
     service_run pending_payment [(quiet_env 2 ''k2'', SimulatePaymentCompletion ''p1'' False)]"

text \<open>The same payment after it has completed.\<close>

definition completed_payment :: database where
  "completed_payment =
     service_run pending_payment [(quiet_env 2 ''k2'', SimulatePaymentCompletion ''p1'' True)]"

text \<open>
  The answers that the payment screen receives: a mobile-money payment initiated for order A,
  and the status read after that payment has failed.
\<close>

definition initiated_response :: PaymentResponse where
  "initiated_response =
     fst (processPayment (quiet_env 1 ''p1'') (sample_request ''A'' ''orange_money'') two_orders)"

definition failed_status :: PaymentStatus where
  "failed_status = checkPaymentStatus (quiet_env 3 ''k3'') ''p1'' failed_payment"

text \<open>
  A marketplace with one vendor awaiting verification, owned by user \<open>u1\<close>, and its one
  active product; an environment whose first product query fails.
\<close>

definition pending_vendor :: vendor where
  "pending_vendor =
     \<lparr>v_id = ''V1'', v_user_id = ''u1'', business_name = ''Green Acre'',
      location = Some ''Bo'', verification_status = Some ''pending''\<rparr>"

definition cassava :: product where
  "cassava =
     \<lparr>pr_id = ''P1'', pr_vendor_id = ''V1'', pr_category_id = ''tubers'', pr_name = ''Cassava'',
      pr_price = 250, pr_unit = ''kg'', stock_quantity = 40, is_active = Some True\<rparr>"

definition market :: database where
  "market = empty_db\<lparr>vendors := [pending_vendor], products := [cassava]\<rparr>"

definition first_query_fails :: env where
  "first_query_fails =
     (quiet_env 1 ''k1'')\<lparr>products_query_error := Some (BackendError ''bad request'')\<rparr>"

text \<open>
  A shop that offers the two products of the sample cart, the cart with its two lines, and
  the form of the customer who checks it out.
\<close>

definition okra :: product where
  "okra =
     \<lparr>pr_id = ''P2'', pr_vendor_id = ''V2'', pr_category_id = ''vegetables'', pr_name = ''Okra'',
      pr_price = 1500, pr_unit = ''basket'', stock_quantity = 3, is_active = Some True\<rparr>"

definition shop :: database where
  "shop = empty_db\<lparr>products := [cassava, okra]\<rparr>"

definition sample_cart :: CartState where
  "sample_cart =
     dispatch_all initialCart
       [(10, ADD_ITEM \<lparr>productId = ''P1'', name = ''Cassava'', price = 250, unit = ''kg'',
                       image_url = None, vendorId = ''V1'', vendorName = ''Green Acre'',
                       maxStock = 40\<rparr> (Some 4)),
        (11, ADD_ITEM \<lparr>productId = ''P2'', name = ''Okra'', price = 1500, unit = ''basket'',
                       image_url = None, vendorId = ''V2'', vendorName = ''Hill Farm'',
                       maxStock = 3\<rparr> None)]"

definition sample_form :: CheckoutFormData where
  "sample_form =
     \<lparr>full_name = ''Ada'', email = ''ada@example.org'', phone = ''076000000'',
      form_delivery_address = ''12 Farm Road'', form_payment_method = ''orange_money'',
      form_notes = None\<rparr>"

section \<open>Theorems: unfolding the sample data\<close>

lemmas sample_defs = two_orders_def empty_db_def sample_order_def sample_row_def
  sample_product_def quiet_env_def sample_request_def

lemma show_nat_0: "show_nat 0 = ''0''"
  by code_simp

lemma show_nat_1: "show_nat (Suc 0) = ''1''"
  by code_simp

section \<open>Theorems: the cart reducer\<close>

lemma foldl_add_sum_list:
  "foldl (\<lambda>sum x. sum + f x) a xs = a + sum_list (map f xs)"
  by (induction xs arbitrary: a) (simp_all add: add.assoc)

lemma reduce_total_sum: "reduce_total xs = (\<Sum>item\<leftarrow>xs. price item * quantity item)"
  by (simp add: reduce_total_def foldl_add_sum_list)

lemma reduce_itemCount_sum: "reduce_itemCount xs = (\<Sum>item\<leftarrow>xs. quantity item)"
  by (simp add: reduce_itemCount_def foldl_add_sum_list)

lemma cartReducer_consistent:
  "cart_consistent s \<Longrightarrow> cart_consistent (cartReducer now s a)"
proof (induction now s a rule: cartReducer.induct)
  case (1 now state payload qty)
  then show ?case
    by (simp add: cart_consistent_def Let_def reduce_total_sum reduce_itemCount_sum)
next
  case (2 now state rid)
  then show ?case
    by (simp add: cart_consistent_def Let_def reduce_total_sum reduce_itemCount_sum)
next
  case (3 now state uid qty)
  then show ?case
    by (simp add: cart_consistent_def Let_def reduce_total_sum reduce_itemCount_sum)
next
  case (4 now state)
  then show ?case by (simp add: cart_consistent_def)
next
  case (5 now state loaded)
  then show ?case
    by (simp add: cart_consistent_def reduce_total_sum reduce_itemCount_sum)
qed

lemma dispatch_all_consistent:
  "cart_consistent s \<Longrightarrow> cart_consistent (dispatch_all s acts)"
  unfolding dispatch_all_def
  by (induction acts arbitrary: s) (auto simp: cartReducer_consistent)

text \<open>
  Claim C9. Every cart state reached from the empty cart by dispatching any sequence of
  \<open>ADD_ITEM\<close>, \<open>REMOVE_ITEM\<close>, \<open>UPDATE_QUANTITY\<close>, \<open>CLEAR_CART\<close> and \<open>LOAD_CART\<close> actions has a
  total equal to the sum over its items of price times quantity, and an item count equal to
  the sum of its items' quantities.
\<close>

theorem cart_totals_invariant:
  "total' (dispatch_all initialCart acts) =
     (\<Sum>item\<leftarrow>items (dispatch_all initialCart acts). price item * quantity item) \<and>
   itemCount (dispatch_all initialCart acts) =
     (\<Sum>item\<leftarrow>items (dispatch_all initialCart acts). quantity item)"
proof -
  have "cart_consistent initialCart"
    by (simp add: cart_consistent_def initialCart_def)
  then have "cart_consistent (dispatch_all initialCart acts)"
    by (rule dispatch_all_consistent)
  then show ?thesis by (simp add: cart_consistent_def)
qed

section \<open>Theorems: the order total trigger\<close>

lemmas trigger_defs = apply_item_mutation.simps insert_order_item_def update_order_item_def
  delete_order_item_def update_order_total_def row_acceptable_def with_id_def decimal_10_2_def
  recomputed_total_def subtotals_of_def sql_sum_def coalesce_def coalesce_opt_def
  total_consistent_at_def order_total_consistent_def

text \<open>
  What the trigger does achieve. After a statement that succeeds, the order that the trigger
  recomputes has a total equal to the sum of its items' subtotals plus its delivery fee
  (\<open>statement_recomputes_its_order\<close>), and every other order keeps a correct total unless
  the statement was an \<open>UPDATE\<close> that took one of its items away
  (\<open>statement_keeps_other_totals\<close>).
\<close>

lemma coalesce_sql_sum: "coalesce (sql_sum xs) 0 = sum_list xs"
  by (cases xs) (simp_all add: coalesce_def sql_sum_def)

lemma set_order_totals_establishes:
  assumes "set_order_totals db now oid rs = Inr rs'"
  shows "list_all (\<lambda>r. Some (total_amount r) =
            map_option (\<lambda>f. sum_list (subtotals_of db oid) + f) (delivery_fee r))
          (filter (\<lambda>r. o_id r = oid) rs')"
  using assms
proof (induction rs arbitrary: rs')
  case Nil
  then show ?case by simp
next
  case (Cons r rs)
  then show ?case
    by (auto simp: recomputed_total_def coalesce_sql_sum split: if_splits option.splits sum.splits)
qed

lemma update_order_total_establishes:
  assumes "update_order_total now NEW OLD db = Inr db'"
    and "coalesce_opt (map_option oi_order_id NEW) (map_option oi_order_id OLD) = Some oid"
  shows "total_consistent_at db' oid"
proof -
  from assms obtain rs' where rs: "set_order_totals db now oid (orders db) = Inr rs'"
    and db': "db' = db\<lparr>orders := rs'\<rparr>"
    by (auto simp: update_order_total_def split: sum.splits)
  have "subtotals_of db' oid = subtotals_of db oid"
    by (simp add: db' subtotals_of_def)
  with set_order_totals_establishes [OF rs] show ?thesis
    by (simp add: total_consistent_at_def order_total_consistent_def db' list_all_iff)
qed

lemma oi_order_id_with_id [simp]: "oi_order_id (with_id k row) = oi_order_id row"
  by (simp add: with_id_def)

lemma oi_id_with_id [simp]: "oi_id (with_id k row) = k"
  by (simp add: with_id_def)

lemma oi_subtotal_with_id [simp]: "oi_subtotal (with_id k row) = oi_subtotal row"
  by (simp add: with_id_def)

lemma statement_recomputes_its_order:
  assumes "apply_item_mutation now m db = Inr db'" and "recomputed_order m db = Some oid"
  shows "total_consistent_at db' oid"
proof (cases m)
  case (InsertItem new_id row)
  with assms show ?thesis
    by (auto simp: insert_order_item_def coalesce_opt_def split: if_splits option.splits
          intro!: update_order_total_establishes)
next
  case (UpdateItem k row)
  with assms show ?thesis
    by (auto simp: update_order_item_def coalesce_opt_def split: if_splits option.splits
          intro!: update_order_total_establishes)
next
  case (DeleteItem k)
  with assms show ?thesis
    by (auto simp: delete_order_item_def coalesce_opt_def split: if_splits option.splits
          intro!: update_order_total_establishes)
qed

lemma set_order_totals_other:
  assumes "set_order_totals db now t rs = Inr rs'" and "oid \<noteq> t"
  shows "filter (\<lambda>r. o_id r = oid) rs' = filter (\<lambda>r. o_id r = oid) rs"
  using assms
proof (induction rs arbitrary: rs')
  case Nil
  then show ?case by simp
next
  case (Cons r rs)
  then show ?case
    by (auto split: if_splits option.splits sum.splits)
qed

lemma total_consistent_at_cong:
  assumes "filter (\<lambda>r. o_id r = oid) (orders db') = filter (\<lambda>r. o_id r = oid) (orders db)"
    and "subtotals_of db' oid = subtotals_of db oid"
  shows "total_consistent_at db' oid = total_consistent_at db oid"
proof -
  have "list_all (order_total_consistent db') xs = list_all (order_total_consistent db) xs"
    if "\<forall>r\<in>set xs. o_id r = oid" for xs
    using that assms(2) by (induction xs) (simp_all add: order_total_consistent_def)
  then show ?thesis
    unfolding total_consistent_at_def assms(1) by simp
qed

lemma update_order_total_other:
  assumes "update_order_total now NEW OLD db = Inr db'"
    and "coalesce_opt (map_option oi_order_id NEW) (map_option oi_order_id OLD) \<noteq> Some oid"
  shows "total_consistent_at db' oid = total_consistent_at db oid"
proof (cases "coalesce_opt (map_option oi_order_id NEW) (map_option oi_order_id OLD)")
  case None
  with assms(1) show ?thesis by (simp add: update_order_total_def)
next
  case (Some t)
  with assms obtain rs' where rs: "set_order_totals db now t (orders db) = Inr rs'"
    and db': "db' = db\<lparr>orders := rs'\<rparr>"
    by (auto simp: update_order_total_def split: sum.splits)
  from Some assms(2) have "oid \<noteq> t" by auto
  from set_order_totals_other [OF rs this] show ?thesis
    by (intro total_consistent_at_cong) (simp_all add: db' subtotals_of_def)
qed

lemma find_unique_id:
  assumes "distinct (map oi_id xs)" and "find (\<lambda>i. oi_id i = k) xs = Some old"
    and "i \<in> set xs" and "oi_id i = k"
  shows "i = old"
proof -
  from assms(2) have "old \<in> set xs" "oi_id old = k"
    by (auto simp: find_Some_iff)
  with assms(1,3,4) show ?thesis
    by (metis distinct_map inj_onD)
qed

lemma statement_keeps_other_totals:
  assumes "apply_item_mutation now m db = Inr db'"
    and "distinct (map oi_id (order_items db))"
    and "\<not> moves_item_away m db oid"
    and "total_consistent_at db oid"
  shows "total_consistent_at db' oid"
proof (cases "recomputed_order m db = Some oid")
  case True
  with assms(1) show ?thesis by (rule statement_recomputes_its_order)
next
  case other: False
  show ?thesis
  proof (cases m)
    case (InsertItem new_id row)
    let ?db1 = "db\<lparr>order_items := order_items db @ [with_id new_id row]\<rparr>"
    from InsertItem assms(1) have
      u: "update_order_total now (Some (with_id new_id row)) None ?db1 = Inr db'"
      by (auto simp: insert_order_item_def split: if_splits option.splits)
    from InsertItem other have ne: "oi_order_id row \<noteq> oid" by simp
    then have "total_consistent_at db' oid = total_consistent_at ?db1 oid"
      by (intro update_order_total_other [OF u]) (simp add: coalesce_opt_def)
    also have "\<dots> = total_consistent_at db oid"
      using ne by (intro total_consistent_at_cong) (simp_all add: subtotals_of_def)
    finally show ?thesis using assms(4) by simp
  next
    case (UpdateItem k row)
    show ?thesis
    proof (cases "find (\<lambda>i. oi_id i = k) (order_items db)")
      case None
      with UpdateItem assms(1,4) show ?thesis by (simp add: update_order_item_def)
    next
      case (Some old)
      let ?db1 = "db\<lparr>order_items :=
                       map (\<lambda>i. if oi_id i = k then with_id k row else i) (order_items db)\<rparr>"
      from UpdateItem Some assms(1) have
        u: "update_order_total now (Some (with_id k row)) (Some old) ?db1 = Inr db'"
        by (auto simp: update_order_item_def split: option.splits)
      from UpdateItem Some other have ne: "oi_order_id row \<noteq> oid" by simp
      with UpdateItem Some assms(3) have old: "oi_order_id old \<noteq> oid"
        by (simp add: moves_item_away_def)
      have rows: "i \<in> set (order_items db) \<Longrightarrow> oi_id i = k \<Longrightarrow> oi_order_id i \<noteq> oid" for i
        using find_unique_id [OF assms(2) Some] old by blast
      have "filter (\<lambda>i. oi_order_id i = oid)
              (map (\<lambda>i. if oi_id i = k then with_id k row else i) xs) =
            filter (\<lambda>i. oi_order_id i = oid) xs"
        if "set xs \<subseteq> set (order_items db)" for xs
        using that ne rows by (induction xs) auto
      then have s: "subtotals_of ?db1 oid = subtotals_of db oid"
        by (simp add: subtotals_of_def)
      from ne have "total_consistent_at db' oid = total_consistent_at ?db1 oid"
        by (intro update_order_total_other [OF u]) (simp add: coalesce_opt_def)
      also have "\<dots> = total_consistent_at db oid"
        using s by (intro total_consistent_at_cong) simp_all
      finally show ?thesis using assms(4) by simp
    qed
  next
    case (DeleteItem k)
    show ?thesis
    proof (cases "find (\<lambda>i. oi_id i = k) (order_items db)")
      case None
      with DeleteItem assms(1,4) show ?thesis by (simp add: delete_order_item_def)
    next
      case (Some old)
      let ?db1 = "db\<lparr>order_items := filter (\<lambda>i. oi_id i \<noteq> k) (order_items db)\<rparr>"
      from DeleteItem Some assms(1) have
        u: "update_order_total now None (Some old) ?db1 = Inr db'"
        by (simp add: delete_order_item_def)
      from DeleteItem Some other have old: "oi_order_id old \<noteq> oid" by simp
      have rows: "i \<in> set (order_items db) \<Longrightarrow> oi_id i = k \<Longrightarrow> oi_order_id i \<noteq> oid" for i
        using find_unique_id [OF assms(2) Some] old by blast
      have "filter (\<lambda>i. oi_order_id i = oid) (filter (\<lambda>i. oi_id i \<noteq> k) xs) =
            filter (\<lambda>i. oi_order_id i = oid) xs"
        if "set xs \<subseteq> set (order_items db)" for xs
        using that rows by (induction xs) auto
      then have s: "subtotals_of ?db1 oid = subtotals_of db oid"
        by (simp add: subtotals_of_def)
      from old have "total_consistent_at db' oid = total_consistent_at ?db1 oid"
        by (intro update_order_total_other [OF u]) (simp add: coalesce_opt_def)
      also have "\<dots> = total_consistent_at db oid"
        using s by (intro total_consistent_at_cong) simp_all
      finally show ?thesis using assms(4) by simp
    qed
  qed
qed

text \<open>
  The example of the specification: two items with subtotals 10.00 and 15.00 and a delivery
  fee of 5.00 give a total of 30.00.
\<close>

lemma order_total_example:
  "map (\<lambda>r. (o_id r, delivery_fee r, total_amount r)) (orders two_items) =
     [(''A'', Some 500, 3000), (''B'', Some 0, 0)] \<and>
   map (\<lambda>i. (oi_id i, oi_order_id i, oi_subtotal i)) (order_items two_items) =
     [(''i1'', ''A'', 1000), (''i2'', ''A'', 1500)] \<and>
   total_consistent_at two_items ''A''"
  by (simp add: two_items_def sample_defs trigger_defs)

text \<open>
  Claim C1, at the input where the trigger misses it. An \<open>UPDATE\<close> that moves item \<open>i1\<close> from
  order A to order B fires the trigger for \<open>COALESCE(NEW.order_id, OLD.order_id)\<close>, which is
  B: the total of B is recomputed, the total of A is not. A keeps 30.00 although its remaining
  item and its fee add up to 20.00.
\<close>

theorem moved_item_leaves_stale_total:
  "map (\<lambda>i. (oi_id i, oi_order_id i, oi_subtotal i)) (order_items item_moved) =
     [(''i1'', ''B'', 1000), (''i2'', ''A'', 1500)] \<and>
   map (\<lambda>r. (o_id r, delivery_fee r, total_amount r)) (orders item_moved) =
     [(''A'', Some 500, 3000), (''B'', Some 0, 1000)] \<and>
   \<not> total_consistent_at item_moved ''A'' \<and>
   total_consistent_at item_moved ''B''"
  by (simp add: item_moved_def two_items_def sample_defs trigger_defs)

section \<open>Theorems: the payment service\<close>

lemmas service_defs = processPayment_def processOrangeMoneyPayment_def
  processAfriMoneyPayment_def processStripePayment_def insert_payment_def new_payment_row_def
  decimal_10_2_def updateOrderPaymentStatus_def simulatePaymentCompletion_def
  updatePaymentStatus_def select_payment_single_def truthy_def payment_status_of_def
  order_payment_status_of_def Let_def

lemma find_append_Some: "find P xs = Some x \<Longrightarrow> find P (xs @ ys) = Some x"
  by (induction xs) (auto split: if_splits)

lemma insert_payment_Inr:
  "insert_payment e row db = Inr (p, db1) \<Longrightarrow>
     p = row \<and> db1 = db\<lparr>payments := payments db @ [row]\<rparr>"
  unfolding insert_payment_def
  by (cases "payments_insert_error e") (auto split: if_splits)

lemma insert_payment_cases:
  obtains err where "insert_payment e row db = Inl err"
  | "insert_payment e row db = Inr (row, db\<lparr>payments := payments db @ [row]\<rparr>)"
proof (cases "insert_payment e row db")
  case (Inl a)
  then show ?thesis using that by blast
next
  case (Inr b)
  obtain p db1 where b: "b = (p, db1)" by (cases b)
  with Inr have "p = row \<and> db1 = db\<lparr>payments := payments db @ [row]\<rparr>"
    using insert_payment_Inr by blast
  with Inr b that show ?thesis by blast
qed

lemma payments_updateOrderPaymentStatus:
  "payments (updateOrderPaymentStatus e oid s db) = payments db"
  by (cases "orders_update_error e") (simp_all add: updateOrderPaymentStatus_def)

lemma processOrangeMoneyPayment_result:
  "(\<not> success (fst (processOrangeMoneyPayment e r db)) \<and>
      snd (processOrangeMoneyPayment e r db) = db) \<or>
   (success (fst (processOrangeMoneyPayment e r db)) \<and>
      redirectUrl (fst (processOrangeMoneyPayment e r db)) = None \<and>
      snd (processOrangeMoneyPayment e r db) =
        updateOrderPaymentStatus e (orderId r) Pending
          (db\<lparr>payments := payments db @ [new_payment_row e r ''orange_money'']\<rparr>))"
  by (rule insert_payment_cases [of e "new_payment_row e r ''orange_money''" db])
     (simp_all add: processOrangeMoneyPayment_def)

lemma processAfriMoneyPayment_result:
  "(\<not> success (fst (processAfriMoneyPayment e r db)) \<and>
      snd (processAfriMoneyPayment e r db) = db) \<or>
   (success (fst (processAfriMoneyPayment e r db)) \<and>
      redirectUrl (fst (processAfriMoneyPayment e r db)) = None \<and>
      snd (processAfriMoneyPayment e r db) =
        updateOrderPaymentStatus e (orderId r) Pending
          (db\<lparr>payments := payments db @ [new_payment_row e r ''afrimoney'']\<rparr>))"
  by (rule insert_payment_cases [of e "new_payment_row e r ''afrimoney''" db])
     (simp_all add: processAfriMoneyPayment_def)

lemma processStripePayment_result:
  "(\<not> success (fst (processStripePayment e r db)) \<and>
      snd (processStripePayment e r db) = db) \<or>
   (success (fst (processStripePayment e r db)) \<and>
      redirectUrl (fst (processStripePayment e r db)) \<noteq> None \<and>
      snd (processStripePayment e r db) =
        updateOrderPaymentStatus e (orderId r) Pending
          (db\<lparr>payments := payments db @ [new_payment_row e r ''stripe'']\<rparr>))"
  by (rule insert_payment_cases [of e "new_payment_row e r ''stripe''" db])
     (simp_all add: processStripePayment_def)

lemma processPayment_unsupported:
  "paymentMethod r \<noteq> ''orange_money'' \<Longrightarrow> paymentMethod r \<noteq> ''afrimoney'' \<Longrightarrow>
   paymentMethod r \<noteq> ''stripe'' \<Longrightarrow>
   \<not> success (fst (processPayment e r db)) \<and> snd (processPayment e r db) = db"
  by (simp add: processPayment_def)

lemma processPayment_result:
  "(\<not> success (fst (processPayment e r db)) \<and> snd (processPayment e r db) = db) \<or>
   (success (fst (processPayment e r db)) \<and>
      paymentMethod r \<in> {''orange_money'', ''afrimoney'', ''stripe''} \<and>
      (redirectUrl (fst (processPayment e r db)) \<noteq> None \<longleftrightarrow> paymentMethod r = ''stripe'') \<and>
      snd (processPayment e r db) =
        updateOrderPaymentStatus e (orderId r) Pending
          (db\<lparr>payments := payments db @ [new_payment_row e r (paymentMethod r)]\<rparr>))"
proof -
  consider "paymentMethod r = ''orange_money''" | "paymentMethod r = ''afrimoney''"
    | "paymentMethod r = ''stripe''"
    | "paymentMethod r \<noteq> ''orange_money''" "paymentMethod r \<noteq> ''afrimoney''"
      "paymentMethod r \<noteq> ''stripe''"
    by blast
  then show ?thesis
  proof cases
    case 1
    then have "processPayment e r db = processOrangeMoneyPayment e r db"
      by (simp add: processPayment_def)
    with 1 processOrangeMoneyPayment_result [of e r db] show ?thesis by simp
  next
    case 2
    then have "processPayment e r db = processAfriMoneyPayment e r db"
      by (simp add: processPayment_def)
    with 2 processAfriMoneyPayment_result [of e r db] show ?thesis by simp
  next
    case 3
    then have "processPayment e r db = processStripePayment e r db"
      by (simp add: processPayment_def)
    with 3 processStripePayment_result [of e r db] show ?thesis by simp
  next
    case 4
    then show ?thesis using processPayment_unsupported [of r e db] by blast
  qed
qed

lemma insert_payment_accepted:
  "(\<exists>p d. insert_payment e row db = Inr (p, d)) \<longleftrightarrow>
     payments_insert_error e = None \<and> pay_id row \<notin> set (map pay_id (payments db)) \<and>
     pay_order_id row \<in> set (map o_id (orders db)) \<and> decimal_10_2 (pay_amount row)"
  unfolding insert_payment_def
  by (cases "payments_insert_error e") auto

lemma processOrangeMoneyPayment_success:
  "success (fst (processOrangeMoneyPayment e r db)) \<longleftrightarrow>
     (\<exists>p d. insert_payment e (new_payment_row e r ''orange_money'') db = Inr (p, d))"
  by (rule insert_payment_cases [of e "new_payment_row e r ''orange_money''" db])
     (simp_all add: processOrangeMoneyPayment_def)

lemma processAfriMoneyPayment_success:
  "success (fst (processAfriMoneyPayment e r db)) \<longleftrightarrow>
     (\<exists>p d. insert_payment e (new_payment_row e r ''afrimoney'') db = Inr (p, d))"
  by (rule insert_payment_cases [of e "new_payment_row e r ''afrimoney''" db])
     (simp_all add: processAfriMoneyPayment_def)

lemma processStripePayment_success:
  "success (fst (processStripePayment e r db)) \<longleftrightarrow>
     (\<exists>p d. insert_payment e (new_payment_row e r ''stripe'') db = Inr (p, d))"
  by (rule insert_payment_cases [of e "new_payment_row e r ''stripe''" db])
     (simp_all add: processStripePayment_def)

lemma processPayment_success:
  assumes "paymentMethod r \<in> {''orange_money'', ''afrimoney'', ''stripe''}"
  shows "success (fst (processPayment e r db)) \<longleftrightarrow>
     payments_insert_error e = None \<and> new_uuid e \<notin> set (map pay_id (payments db)) \<and>
     orderId r \<in> set (map o_id (orders db)) \<and> decimal_10_2 (amount r)"
proof -
  have "success (fst (processPayment e r db)) \<longleftrightarrow>
     (\<exists>p d. insert_payment e (new_payment_row e r (paymentMethod r)) db = Inr (p, d))"
    using assms processOrangeMoneyPayment_success [of e r db]
      processAfriMoneyPayment_success [of e r db] processStripePayment_success [of e r db]
    by (auto simp: processPayment_def)
  then show ?thesis
    by (simp add: insert_payment_accepted new_payment_row_def)
qed

text \<open>
  Claim C7. For a request whose method is \<open>orange_money\<close>, \<open>afrimoney\<close> or \<open>stripe\<close>,
  \<open>processPayment\<close> succeeds exactly when the database accepts the new payment row; a
  successful call inserts exactly one payment row, with status \<open>pending\<close>, for the request's
  order, and its response carries a redirect URL if and only if the method is \<open>stripe\<close>; a
  call that does not succeed leaves the database as it was.
\<close>

theorem processPayment_inserts_one_pending_row:
  assumes "paymentMethod request \<in> {''orange_money'', ''afrimoney'', ''stripe''}"
    and "processPayment e request db = (response, db')"
  shows "(success response \<longleftrightarrow>
            payments_insert_error e = None \<and> new_uuid e \<notin> set (map pay_id (payments db)) \<and>
            orderId request \<in> set (map o_id (orders db)) \<and> decimal_10_2 (amount request)) \<and>
         (success response \<longrightarrow>
            (\<exists>row. payments db' = payments db @ [row] \<and> status row = Pending \<and>
                   pay_order_id row = orderId request \<and>
                   pay_method row = paymentMethod request) \<and>
            (redirectUrl response \<noteq> None \<longleftrightarrow> paymentMethod request = ''stripe'')) \<and>
         (\<not> success response \<longrightarrow> db' = db)"
proof -
  from assms(2) have f: "fst (processPayment e request db) = response"
    and s: "snd (processPayment e request db) = db'" by simp_all
  have 1: "success response \<longleftrightarrow>
            payments_insert_error e = None \<and> new_uuid e \<notin> set (map pay_id (payments db)) \<and>
            orderId request \<in> set (map o_id (orders db)) \<and> decimal_10_2 (amount request)"
    using processPayment_success [OF assms(1), of e db] f by simp
  have 2: "(\<exists>row. payments db' = payments db @ [row] \<and> status row = Pending \<and>
                   pay_order_id row = orderId request \<and>
                   pay_method row = paymentMethod request) \<and>
            (redirectUrl response \<noteq> None \<longleftrightarrow> paymentMethod request = ''stripe'')"
    if "success response"
  proof -
    from processPayment_result [of e request db] that f s
    have "(redirectUrl response \<noteq> None \<longleftrightarrow> paymentMethod request = ''stripe'') \<and>
        db' = updateOrderPaymentStatus e (orderId request) Pending
          (db\<lparr>payments := payments db @ [new_payment_row e request (paymentMethod request)]\<rparr>)"
      by auto
    then show ?thesis
      by (simp add: payments_updateOrderPaymentStatus new_payment_row_def)
  qed
  have 3: "db' = db" if "\<not> success response"
    using processPayment_result [of e request db] that f s by auto
  from 1 2 3 show ?thesis by blast
qed

theorem processPayment_inserts_one_pending_row_witness:
  "(paymentMethod (sample_request ''A'' ''orange_money'') \<in> {''orange_money'', ''afrimoney'', ''stripe''} \<and>
    success (fst (processPayment (quiet_env 1 ''p1'') (sample_request ''A'' ''orange_money'') two_orders)) \<and>
    (\<exists>row. payments (snd (processPayment (quiet_env 1 ''p1'') (sample_request ''A'' ''orange_money'') two_orders)) =
             payments two_orders @ [row] \<and> status row = Pending \<and> pay_order_id row = ''A'' \<and>
             pay_method row = ''orange_money'') \<and>
    redirectUrl (fst (processPayment (quiet_env 1 ''p1'') (sample_request ''A'' ''orange_money'') two_orders)) = None) \<and>
   (paymentMethod (sample_request ''A'' ''afrimoney'') \<in> {''orange_money'', ''afrimoney'', ''stripe''} \<and>
    success (fst (processPayment (quiet_env 1 ''p1'') (sample_request ''A'' ''afrimoney'') two_orders)) \<and>
    (\<exists>row. payments (snd (processPayment (quiet_env 1 ''p1'') (sample_request ''A'' ''afrimoney'') two_orders)) =
             payments two_orders @ [row] \<and> status row = Pending \<and> pay_order_id row = ''A'' \<and>
             pay_method row = ''afrimoney'') \<and>
    redirectUrl (fst (processPayment (quiet_env 1 ''p1'') (sample_request ''A'' ''afrimoney'') two_orders)) = None) \<and>
   (paymentMethod (sample_request ''A'' ''stripe'') \<in> {''orange_money'', ''afrimoney'', ''stripe''} \<and>
    success (fst (processPayment (quiet_env 1 ''p1'') (sample_request ''A'' ''stripe'') two_orders)) \<and>
    (\<exists>row. payments (snd (processPayment (quiet_env 1 ''p1'') (sample_request ''A'' ''stripe'') two_orders)) =
             payments two_orders @ [row] \<and> status row = Pending \<and> pay_order_id row = ''A'' \<and>
             pay_method row = ''stripe'') \<and>
    redirectUrl (fst (processPayment (quiet_env 1 ''p1'') (sample_request ''A'' ''stripe'') two_orders)) \<noteq> None)"
proof -
  have accepted: "payments_insert_error (quiet_env 1 ''p1'') = None \<and>
      new_uuid (quiet_env 1 ''p1'') \<notin> set (map pay_id (payments two_orders)) \<and>
      orderId (sample_request ''A'' m) \<in> set (map o_id (orders two_orders)) \<and>
      decimal_10_2 (amount (sample_request ''A'' m))" for m
    by (simp add: sample_defs decimal_10_2_def)
  have m: "paymentMethod (sample_request ''A'' k) = k" "orderId (sample_request ''A'' k) = ''A''" for k
    by (simp_all add: sample_request_def)
  have v: "paymentMethod (sample_request ''A'' ''orange_money'') \<in> {''orange_money'', ''afrimoney'', ''stripe''}"
    "paymentMethod (sample_request ''A'' ''afrimoney'') \<in> {''orange_money'', ''afrimoney'', ''stripe''}"
    "paymentMethod (sample_request ''A'' ''stripe'') \<in> {''orange_money'', ''afrimoney'', ''stripe''}"
    by (simp_all add: sample_request_def)
  from processPayment_inserts_one_pending_row [OF v(1) surjective_pairing, of "quiet_env 1 ''p1''" two_orders]
    processPayment_inserts_one_pending_row [OF v(2) surjective_pairing, of "quiet_env 1 ''p1''" two_orders]
    processPayment_inserts_one_pending_row [OF v(3) surjective_pairing, of "quiet_env 1 ''p1''" two_orders]
    accepted [of "''orange_money''"] accepted [of "''afrimoney''"] accepted [of "''stripe''"]
  show ?thesis
    unfolding m by simp
qed

lemma find_map_payment:
  assumes "\<And>p. pay_id (f p) = pay_id p"
  shows "find (\<lambda>p. pay_id p = pid) (map (\<lambda>p. if pay_id p = k then f p else p) ps) =
     (if pid = k then map_option f (find (\<lambda>p. pay_id p = pid) ps)
      else find (\<lambda>p. pay_id p = pid) ps)"
  using assms by (induction ps) auto

lemma payments_updatePaymentStatus:
  "payments (snd (updatePaymentStatus e k s txn db)) =
     (if payments_update_error e = None
      then map (\<lambda>p. if pay_id p = k
                     then p\<lparr>status := s, pay_updated_at := clock e,
                            transaction_id := (if truthy txn then txn else transaction_id p)\<rparr>
                     else p) (payments db)
      else payments db)"
proof (cases "payments_update_error e")
  case None
  show ?thesis
  proof (cases "select_payment_single e k (db\<lparr>payments :=
          map (\<lambda>p. if pay_id p = k
                     then p\<lparr>status := s, pay_updated_at := clock e,
                            transaction_id := (if truthy txn then txn else transaction_id p)\<rparr>
                     else p) (payments db)\<rparr>)")
    case (Inl a)
    with None show ?thesis by (simp add: updatePaymentStatus_def)
  next
    case (Inr b)
    with None show ?thesis
      by (simp add: updatePaymentStatus_def payments_updateOrderPaymentStatus)
  qed
next
  case (Some a)
  then show ?thesis by (simp add: updatePaymentStatus_def)
qed

lemma payment_status_of_updatePaymentStatus:
  "payment_status_of (snd (updatePaymentStatus e k s' txn db)) pid =
     (if pid = k \<and> payments_update_error e = None
      then map_option (\<lambda>_. s') (payment_status_of db pid)
      else payment_status_of db pid)"
  by (simp add: payments_updatePaymentStatus payment_status_of_def find_map_payment
        option.map_comp comp_def)

lemma payment_status_of_processPayment:
  assumes "payment_status_of db pid = Some s"
  shows "payment_status_of (snd (processPayment e request db)) pid = Some s"
proof -
  from assms obtain p where p: "find (\<lambda>p. pay_id p = pid) (payments db) = Some p" "status p = s"
    by (auto simp: payment_status_of_def)
  from processPayment_result [of e request db]
  have "payments (snd (processPayment e request db)) = payments db \<or>
        payments (snd (processPayment e request db)) =
          payments db @ [new_payment_row e request (paymentMethod request)]"
    by (auto simp: payments_updateOrderPaymentStatus)
  then show ?thesis using p assms
    by (auto simp: payment_status_of_def find_append_Some)
qed

text \<open>
  Claim C2, as amended. The service has no guard on terminal states. For a payment in a
  terminal state, \<open>processPayment\<close> and \<open>checkPaymentStatus\<close> leave its status alone, and so
  does a call of \<open>updatePaymentStatus\<close> or \<open>simulatePaymentCompletion\<close> for another payment
  or one whose update request fails; a call that names the payment and whose update request
  succeeds overwrites the status with the requested value, whatever the terminal state was.
\<close>

theorem terminal_status_overwritten_without_guard:
  assumes "payment_status_of db pid = Some s" and "terminal s"
  shows "payment_status_of (service_step e c db) pid =
           (case c of
              ProcessPayment request \<Rightarrow> Some s
            | CheckPaymentStatus k \<Rightarrow> Some s
            | UpdatePaymentStatus k s' txn \<Rightarrow>
                if k = pid \<and> payments_update_error e = None then Some s' else Some s
            | SimulatePaymentCompletion k succeeded \<Rightarrow>
                if k = pid \<and> payments_update_error e = None
                then Some (if succeeded then Completed else Failed) else Some s)"
proof (cases c)
  case (ProcessPayment request)
  with assms show ?thesis by (simp add: payment_status_of_processPayment)
next
  case (CheckPaymentStatus k)
  with assms show ?thesis by simp
next
  case (UpdatePaymentStatus k s' txn)
  with assms show ?thesis by (simp add: payment_status_of_updatePaymentStatus)
next
  case (SimulatePaymentCompletion k succeeded)
  with assms show ?thesis
    by (simp add: simulatePaymentCompletion_def payment_status_of_updatePaymentStatus)
qed

theorem terminal_status_overwritten_without_guard_witness:
  "payment_status_of completed_payment ''p1'' = Some Completed \<and>
   terminal Completed \<and>
   payments_update_error (quiet_env 3 ''k3'') = None \<and>
   payment_status_of
     (service_step (quiet_env 3 ''k3'') (UpdatePaymentStatus ''p1'' Pending None)
        completed_payment) ''p1'' = Some Pending \<and>
   payment_status_of
     (service_step (quiet_env 3 ''k3'') (UpdatePaymentStatus ''other'' Pending None)
        completed_payment) ''p1'' = Some Completed \<and>
   payment_status_of
     (service_step (quiet_env 3 ''p2'') (ProcessPayment (sample_request ''A'' ''orange_money''))
        completed_payment) ''p1'' = Some Completed"
proof -
  have a: "payment_status_of completed_payment ''p1'' = Some Completed"
    by (simp add: completed_payment_def pending_payment_def sample_defs service_defs)
  have t: "terminal Completed" by (simp add: terminal_def)
  have q: "payments_update_error (quiet_env 3 ''k3'') = None" by (simp add: quiet_env_def)
  from terminal_status_overwritten_without_guard [OF a t,
      of "quiet_env 3 ''k3''" "UpdatePaymentStatus ''p1'' Pending None"]
    terminal_status_overwritten_without_guard [OF a t,
      of "quiet_env 3 ''k3''" "UpdatePaymentStatus ''other'' Pending None"]
    terminal_status_overwritten_without_guard [OF a t,
      of "quiet_env 3 ''p2''" "ProcessPayment (sample_request ''A'' ''orange_money'')"]
  show ?thesis using a t q by simp
qed

text \<open>
  Claim C2 as stated fails: a payment that \<open>simulatePaymentCompletion\<close> completed is set to
  \<open>failed\<close> by a second call.
\<close>

theorem terminal_payment_leaves_terminal_state:
  "payment_status_of
     (service_run two_orders
        [(quiet_env 1 ''p1'', ProcessPayment (sample_request ''A'' ''orange_money'')),
         (quiet_env 2 ''k2'', SimulatePaymentCompletion ''p1'' True)]) ''p1'' = Some Completed \<and>
   payment_status_of
     (service_run two_orders
        [(quiet_env 1 ''p1'', ProcessPayment (sample_request ''A'' ''orange_money'')),
         (quiet_env 2 ''k2'', SimulatePaymentCompletion ''p1'' True),
         (quiet_env 3 ''k3'', SimulatePaymentCompletion ''p1'' False)]) ''p1'' = Some Failed"
  by (simp add: sample_defs service_defs)








section \<open>Theorems: the payment screen\<close>

lemmas view_defs = initiatePayment_def setPaymentId_def payment_effect_def effect_cleanup_def
  checkStatus_def retryPayment_def unmount_def Let_def

lemma timer_as_installed_step:
  "timer_as_installed st \<Longrightarrow> timer_as_installed (view_step st ev)"
  by (cases ev) (auto simp: timer_as_installed_def view_defs split: option.splits)

lemma timer_as_installed_run: "timer_as_installed (view_run evs)"
  unfolding view_run_def
proof (induction evs rule: rev_induct)
  case Nil
  show ?case by (simp add: timer_as_installed_def initialProcessor_def)
next
  case (snoc ev evs)
  then show ?case by (simp add: timer_as_installed_step)
qed

text \<open>
  Claim C5, as amended. The poll timer has a fixed period of 3000 ms and is installed exactly
  while the payment screen is mounted and holds a payment id: the effect installs it when the
  id is set, and its cleanup clears it when the view is torn down or the id is reset by a
  retry. Reading a status, terminal or not, leaves the timer as it is.
\<close>

theorem poll_timer_follows_payment_id:
  "interval (view_run evs) =
     (if mounted (view_run evs) \<and> cur_paymentId (view_run evs) \<noteq> None then Some 3000 else None) \<and>
   interval (view_step st (Tick observed)) = interval st"
proof -
  have "interval (view_step st (Tick observed)) = interval st"
    by (simp add: checkStatus_def Let_def split: option.splits)
  with timer_as_installed_run [of evs] show ?thesis
    by (simp add: timer_as_installed_def)
qed

lemma initiated_response_eq:
  "success initiated_response \<and> paymentId initiated_response = Some ''p1'' \<and>
   redirectUrl initiated_response = None"
  by (simp add: initiated_response_def sample_defs service_defs)

lemma failed_status_eq: "ps_status failed_status = Failed"
  by (simp add: failed_status_def checkPaymentStatus_def checkPaymentStatus_try_def
        failed_payment_def pending_payment_def sample_defs service_defs)

text \<open>
  Claim C5 as stated fails: after the poll has read the terminal status \<open>failed\<close>, the screen
  is still mounted and the timer still runs.
\<close>

theorem poll_timer_survives_terminal_state:
  "ps_status failed_status = Failed \<and> terminal Failed \<and>
   map_option ps_status (paymentStatus (view_run [Initiate initiated_response, Tick failed_status]))
     = Some Failed \<and>
   mounted (view_run [Initiate initiated_response, Tick failed_status]) \<and>
   interval (view_run [Initiate initiated_response]) = Some 3000 \<and>
   interval (view_run [Initiate initiated_response, Tick failed_status]) = Some 3000"
  using initiated_response_eq failed_status_eq
  by (simp add: view_run_def initialProcessor_def terminal_def view_defs truthy_def)

section \<open>Theorems: what a failed status lookup reports\<close>

text \<open>
  Claim C10, as amended. \<open>checkPaymentStatus\<close> always returns a value: when the lookup of the
  payment row fails for any reason (no such id, or an error of the backend), the \<open>catch\<close>
  block returns a \<open>PaymentStatus\<close> whose status is \<open>failed\<close>, not \<open>pending\<close>. That is the status
  which a lookup of an actually failed payment returns, so the two agree on the status field;
  they differ in the message, \<open>Failed to check payment status\<close> against \<open>Payment failed\<close>.
\<close>

theorem checkPaymentStatus_lookup_failure_reports_failed:
  assumes "select_payment_single e pid db = Inl err"
    and "select_payment_single e' pid' db' = Inr p" and "status p = Failed"
  shows "checkPaymentStatus e pid db =
           \<lparr>ps_status = Failed, transactionId = None,
            ps_message = ''Failed to check payment status'', updatedAt = clock e\<rparr> \<and>
         ps_status (checkPaymentStatus e pid db) \<noteq> Pending \<and>
         ps_status (checkPaymentStatus e pid db) = ps_status (checkPaymentStatus e' pid' db') \<and>
         ps_message (checkPaymentStatus e pid db) = ''Failed to check payment status'' \<and>
         ps_message (checkPaymentStatus e' pid' db') = ''Payment failed''"
  using assms
  by (simp add: checkPaymentStatus_def checkPaymentStatus_try_def getStatusMessage_def)

theorem checkPaymentStatus_lookup_failure_reports_failed_witness:
  "select_payment_single (quiet_env 7 ''k7'') ''no-such-payment'' failed_payment = Inl NoSingleRow \<and>
   (\<exists>p. select_payment_single (quiet_env 8 ''k8'') ''p1'' failed_payment = Inr p \<and> status p = Failed) \<and>
   ps_status (checkPaymentStatus (quiet_env 7 ''k7'') ''no-such-payment'' failed_payment) = Failed \<and>
   ps_status (checkPaymentStatus (quiet_env 8 ''k8'') ''p1'' failed_payment) = Failed \<and>
   ps_message (checkPaymentStatus (quiet_env 7 ''k7'') ''no-such-payment'' failed_payment) =
     ''Failed to check payment status'' \<and>
   ps_message (checkPaymentStatus (quiet_env 8 ''k8'') ''p1'' failed_payment) = ''Payment failed''"
proof -
  have a: "select_payment_single (quiet_env 7 ''k7'') ''no-such-payment'' failed_payment = Inl NoSingleRow"
    by (simp add: failed_payment_def pending_payment_def sample_defs service_defs)
  obtain p where b: "select_payment_single (quiet_env 8 ''k8'') ''p1'' failed_payment = Inr p"
    and c: "status p = Failed"
    by (simp add: failed_payment_def pending_payment_def sample_defs service_defs)
  from checkPaymentStatus_lookup_failure_reports_failed [OF a b c] a b c
  show ?thesis by auto
qed

text \<open>
  Claim C10 as stated fails: the answer to a failed lookup and the answer for a failed
  payment are different values, and the payment screen, which shows the message of a failed
  status, ends up with a different text.
\<close>

theorem lookup_failure_told_apart_by_message:
  "select_payment_single (quiet_env 7 ''k7'') ''no-such-payment'' failed_payment = Inl NoSingleRow \<and>
   map_option status (find (\<lambda>p. pay_id p = ''p1'') (payments failed_payment)) = Some Failed \<and>
   checkPaymentStatus (quiet_env 7 ''k7'') ''no-such-payment'' failed_payment \<noteq>
     checkPaymentStatus (quiet_env 7 ''k7'') ''p1'' failed_payment \<and>
   pp_message
     (checkStatus (checkPaymentStatus (quiet_env 7 ''k7'') ''no-such-payment'' failed_payment)
        (view_run [Initiate initiated_response])) = ''Failed to check payment status'' \<and>
   pp_message
     (checkStatus (checkPaymentStatus (quiet_env 7 ''k7'') ''p1'' failed_payment)
        (view_run [Initiate initiated_response])) = ''Payment failed''"
proof -
  have a: "checkPaymentStatus (quiet_env 7 ''k7'') ''no-such-payment'' failed_payment =
             \<lparr>ps_status = Failed, transactionId = None,
              ps_message = ''Failed to check payment status'', updatedAt = 7\<rparr>"
    by (simp add: checkPaymentStatus_def checkPaymentStatus_try_def failed_payment_def
          pending_payment_def sample_defs service_defs)
  have b: "checkPaymentStatus (quiet_env 7 ''k7'') ''p1'' failed_payment =
             \<lparr>ps_status = Failed, transactionId = None,
              ps_message = ''Payment failed'', updatedAt = 2\<rparr>"
    by (simp add: checkPaymentStatus_def checkPaymentStatus_try_def getStatusMessage_def
          failed_payment_def pending_payment_def sample_defs service_defs)
  have c: "cur_paymentId (view_run [Initiate initiated_response]) = Some ''p1''"
    using initiated_response_eq
    by (simp add: view_run_def initialProcessor_def view_defs truthy_def)
  have d: "select_payment_single (quiet_env 7 ''k7'') ''no-such-payment'' failed_payment =
             Inl NoSingleRow"
    by (simp add: failed_payment_def pending_payment_def sample_defs service_defs)
  have f: "map_option status (find (\<lambda>p. pay_id p = ''p1'') (payments failed_payment)) = Some Failed"
    by (simp add: failed_payment_def pending_payment_def sample_defs service_defs)
  show ?thesis
    unfolding a b using c d f by (simp add: checkStatus_def Let_def)
qed

section \<open>Theorems: the public product listing\<close>

lemmas listing_defs = fetchProducts_def select_active_products_with_vendor_def
  select_active_products_def embed_vendor_def visible_vendors_def vendors_select_policy_def
  products_select_policy_def has_role_def

lemma find_None_filter: "filter P xs = [] \<Longrightarrow> find P xs = None"
  by (simp add: find_None_iff filter_empty_conv)

text \<open>
  Claim C4, as amended. When the first query of \<open>fetchProducts\<close> succeeds and the viewer is
  neither an administrator nor the user who owns the vendor, a product whose vendor has a
  verification status other than \<open>verified\<close> is not in the listing: the viewer cannot read
  the vendor's row, the embedded vendor is \<open>null\<close> and the row is filtered out. The filter is
  not applied by the fallback query, and the owner and administrators see such products.
\<close>

theorem fetchProducts_hides_unverified:
  assumes "products_query_error e = None"
    and "\<not> has_role db viewer ''admin''"
    and "filter (\<lambda>v. v_id v = pr_vendor_id p) (vendors db) = [v]"
    and "verification_status v \<noteq> Some ''verified''"
    and "viewer \<noteq> Some (v_user_id v)"
  shows "p \<notin> set (map listed (fetchProducts e db viewer))"
proof -
  have "\<not> vendors_select_policy db viewer v"
    using assms(2,4,5) by (simp add: vendors_select_policy_def)
  have "filter (\<lambda>w. v_id w = pr_vendor_id p) (visible_vendors db viewer) =
        filter (vendors_select_policy db viewer) (filter (\<lambda>w. v_id w = pr_vendor_id p) (vendors db))"
    unfolding visible_vendors_def by (simp add: conj_commute)
  also have "\<dots> = []"
    using assms(3) \<open>\<not> vendors_select_policy db viewer v\<close> by simp
  finally have "find (\<lambda>w. v_id w = pr_vendor_id p) (visible_vendors db viewer) = None"
    by (rule find_None_filter)
  then have "embedded_vendor (embed_vendor db viewer p) = None"
    by (simp add: embed_vendor_def)
  moreover have "listed (embed_vendor db viewer q) = q" for q
    by (simp add: embed_vendor_def)
  ultimately show ?thesis
    using assms(1)
    by (auto simp: fetchProducts_def select_active_products_with_vendor_def)
qed

theorem fetchProducts_hides_unverified_witness:
  "products_query_error (quiet_env 1 ''k1'') = None \<and>
   \<not> has_role market None ''admin'' \<and>
   filter (\<lambda>v. v_id v = pr_vendor_id cassava) (vendors market) = [pending_vendor] \<and>
   verification_status pending_vendor \<noteq> Some ''verified'' \<and>
   None \<noteq> Some (v_user_id pending_vendor) \<and>
   cassava \<in> set (products market) \<and>
   cassava \<notin> set (map listed (fetchProducts (quiet_env 1 ''k1'') market None))"
proof -
  have a: "products_query_error (quiet_env 1 ''k1'') = None" by (simp add: quiet_env_def)
  have b: "\<not> has_role market None ''admin''" by (simp add: has_role_def)
  have c: "filter (\<lambda>v. v_id v = pr_vendor_id cassava) (vendors market) = [pending_vendor]"
    by (simp add: market_def empty_db_def pending_vendor_def cassava_def)
  have d: "verification_status pending_vendor \<noteq> Some ''verified''"
    by (simp add: pending_vendor_def)
  have f: "None \<noteq> Some (v_user_id pending_vendor)" by simp
  have g: "cassava \<in> set (products market)" by (simp add: market_def)
  from fetchProducts_hides_unverified [OF a b c d f] a b c d f g show ?thesis by simp
qed

text \<open>
  Claim C4 as stated fails: the active product of a vendor awaiting verification is listed
  for an anonymous visitor when the first query fails and the fallback answers, and it is
  listed for the vendor's own user when the first query succeeds.
\<close>

theorem unverified_product_listed:
  "map v_id (filter (\<lambda>v. v_id v = pr_vendor_id cassava) (vendors market)) = [''V1''] \<and>
   map verification_status (vendors market) = [Some ''pending''] \<and>
   map listed (fetchProducts first_query_fails market None) = [cassava] \<and>
   map listed (fetchProducts (quiet_env 1 ''k1'') market (Some ''u1'')) = [cassava]"
  by (simp add: listing_defs first_query_fails_def quiet_env_def market_def empty_db_def
        pending_vendor_def cassava_def)

section \<open>Theorems: the column constraint on \<open>orders.payment_status\<close>\<close>

text \<open>
  Claim C6, at the input where the schema misses it. On a database set up by the two
  migrations the table \<open>orders\<close> keeps the \<open>CHECK\<close> of the first one: \<open>pending\<close>, \<open>completed\<close>
  and \<open>failed\<close> can be stored (and so can \<open>NULL\<close>), \<open>cancelled\<close> cannot, although the later
  definition of the table, taken alone, admits it.
\<close>

theorem cancelled_rejected_after_migrations:
  "\<not> can_store migrated ''orders'' (Some ''cancelled'') \<and>
   can_store migrated ''orders'' (Some ''pending'') \<and>
   can_store migrated ''orders'' (Some ''completed'') \<and>
   can_store migrated ''orders'' (Some ''failed'') \<and>
   can_store migrated ''orders'' None \<and>
   can_store (run_migrations Map.empty [payments_schema_orders]) ''orders'' (Some ''cancelled'')"
  by (simp add: can_store_def migrated_def initial_schema_orders_def payments_schema_orders_def
        check_in_def)

section \<open>Theorems: checkout\<close>

lemma order_items_set_order_totals:
  "update_order_total now NEW OLD db = Inr db' \<Longrightarrow> order_items db' = order_items db"
  by (auto simp: update_order_total_def split: option.splits sum.splits)

lemma order_items_fire_insert_triggers:
  "fire_insert_triggers now new db = Inr db' \<Longrightarrow> order_items db' = order_items db"
proof (induction new arbitrary: db)
  case Nil
  then show ?case by simp
next
  case (Cons i rest)
  then show ?case
    by (auto split: sum.splits dest: order_items_set_order_totals)
qed

lemma insert_order_items_Inr:
  assumes "insert_order_items e rows db = Inr db'"
  shows "order_items db' =
           order_items db @ map (\<lambda>(k, row). with_id (item_uuid e k) row) (enumerate 0 rows)"
  using assms
  by (auto simp: insert_order_items_def Let_def split: option.splits if_splits
        dest: order_items_fire_insert_triggers)

lemma insert_order_Inr:
  "insert_order e row db = Inr (r, db1) \<Longrightarrow> r = row \<and> order_items db1 = order_items db"
  by (auto simp: insert_order_def split: option.splits if_splits)

lemma item_columns_with_id: "item_columns (with_id k row) =
  (oi_order_id row, oi_product_id row, oi_quantity row, oi_unit_price row, oi_subtotal row)"
  by (simp add: item_columns_def with_id_def)

lemma map_enumerate_columns:
  "map (\<lambda>x. item_columns (case x of (k, row) \<Rightarrow> with_id (f k) row)) (enumerate n rows) =
   map (\<lambda>row. (oi_order_id row, oi_product_id row, oi_quantity row, oi_unit_price row,
                oi_subtotal row)) rows"
  by (induction rows arbitrary: n) (simp_all add: item_columns_with_id)

lemma onSubmit_stores_cart_rows:
  assumes "onSubmit e user data deliveryFee cart db = (OrderPlaced oid, cart', db')"
  shows "take (length (order_items db)) (order_items db') = order_items db \<and>
         map item_columns (drop (length (order_items db)) (order_items db')) =
           map (\<lambda>item. (oid, productId item, quantity item, price item,
                         price item * quantity item))
               (items cart)"
proof -
  from assms obtain uid where u: "user = Some uid"
    by (cases user) (simp_all add: onSubmit_def)
  from assms u obtain ord db1 where
    o: "insert_order e (orderData e uid data deliveryFee cart) db = Inr (ord, db1)"
    by (auto simp: onSubmit_def split: sum.splits)
  from assms u o have
    i: "insert_order_items e (orderItems (o_id ord) (items cart)) db1 = Inr db'"
    and oid: "oid = o_id ord"
    by (auto simp: onSubmit_def split: sum.splits)
  from insert_order_Inr [OF o] have db1: "order_items db1 = order_items db" by simp
  from insert_order_items_Inr [OF i] db1
  have "order_items db' = order_items db @
          map (\<lambda>(k, row). with_id (item_uuid e k) row)
            (enumerate 0 (orderItems (o_id ord) (items cart)))"
    by simp
  then show ?thesis
    using oid by (simp add: map_enumerate_columns orderItems_def comp_def)
qed

lemma subtotals_of_products [simp]:
  "subtotals_of (db\<lparr>products := ps\<rparr>) oid = subtotals_of db oid"
  by (simp add: subtotals_of_def)

lemma set_order_totals_products [simp]:
  "set_order_totals (db\<lparr>products := ps\<rparr>) now oid rs = set_order_totals db now oid rs"
  by (induction rs) (simp_all add: recomputed_total_def split: option.splits)

lemma update_order_total_products:
  "update_order_total now NEW OLD (db\<lparr>products := ps\<rparr>) =
     map_sum id (\<lambda>d. d\<lparr>products := ps\<rparr>) (update_order_total now NEW OLD db)"
  by (simp add: update_order_total_def split: option.splits sum.splits)

lemma fire_insert_triggers_products:
  "fire_insert_triggers now new (db\<lparr>products := ps\<rparr>) =
     map_sum id (\<lambda>d. d\<lparr>products := ps\<rparr>) (fire_insert_triggers now new db)"
proof (induction new arbitrary: db)
  case Nil
  show ?case by simp
next
  case (Cons i rest)
  show ?case
  proof (cases "update_order_total now (Some i) None db")
    case (Inl err)
    then show ?thesis by (simp add: update_order_total_products)
  next
    case (Inr d)
    then show ?thesis by (simp add: update_order_total_products Cons.IH)
  qed
qed

lemma row_acceptable_same_product_ids:
  "pr_id ` set ps = pr_id ` set (products db) \<Longrightarrow>
   row_acceptable (db\<lparr>products := ps\<rparr>) row = row_acceptable db row"
  by (simp add: row_acceptable_def)

lemma first_error_same_product_ids:
  "pr_id ` set ps = pr_id ` set (products db) \<Longrightarrow>
   first_error (db\<lparr>products := ps\<rparr>) rows = first_error db rows"
  by (induction rows) (simp_all add: row_acceptable_same_product_ids split: option.splits)

lemma insert_order_items_same_product_ids:
  assumes "pr_id ` set ps = pr_id ` set (products db)"
  shows "insert_order_items e rows (db\<lparr>products := ps\<rparr>) =
     map_sum id (\<lambda>d. d\<lparr>products := ps\<rparr>) (insert_order_items e rows db)"
proof -
  let ?new = "map (\<lambda>(k, row). with_id (item_uuid e k) row) (enumerate 0 rows)"
  have sel: "order_items (db\<lparr>products := ps\<rparr>) = order_items db" by simp
  have fe: "first_error (db\<lparr>products := ps\<rparr>) rows = first_error db rows"
    using assms by (rule first_error_same_product_ids)
  have upd: "db\<lparr>products := ps\<rparr>\<lparr>order_items := order_items db @ ?new\<rparr> =
             (db\<lparr>order_items := order_items db @ ?new\<rparr>)\<lparr>products := ps\<rparr>"
    by simp
  show ?thesis
    unfolding insert_order_items_def Let_def sel fe upd fire_insert_triggers_products
    by (cases "order_items_insert_error e"; cases "first_error db rows"; simp)
qed

lemma insert_order_products:
  "insert_order e row (db\<lparr>products := ps\<rparr>) =
     map_sum id (\<lambda>(r, d). (r, d\<lparr>products := ps\<rparr>)) (insert_order e row db)"
  by (simp add: insert_order_def split: option.splits)

lemma products_insert_order:
  "insert_order e row db = Inr (r, db1) \<Longrightarrow> products db1 = products db"
  by (auto simp: insert_order_def split: option.splits if_splits)

lemma onSubmit_same_product_ids:
  assumes "pr_id ` set ps = pr_id ` set (products db)"
  shows "onSubmit e user data deliveryFee cart (db\<lparr>products := ps\<rparr>) =
     (case onSubmit e user data deliveryFee cart db of
        (result, cart', db') \<Rightarrow> (result, cart', db'\<lparr>products := ps\<rparr>))"
proof (cases user)
  case None
  then show ?thesis by (simp add: onSubmit_def)
next
  case (Some uid)
  show ?thesis
  proof (cases "insert_order e (orderData e uid data deliveryFee cart) db")
    case (Inl err)
    with Some show ?thesis by (simp add: onSubmit_def insert_order_products)
  next
    case (Inr b)
    obtain ord db1 where b: "b = (ord, db1)" by (cases b)
    from Inr b have "products db1 = products db" by (simp add: products_insert_order)
    with assms have ids: "pr_id ` set ps = pr_id ` set (products db1)" by simp
    show ?thesis
    proof (cases "insert_order_items e (orderItems (o_id ord) (items cart)) db1")
      case (Inl err)
      with Some Inr b show ?thesis
        by (simp add: onSubmit_def insert_order_products
              insert_order_items_same_product_ids [OF ids])
    next
      case (Inr db2)
      with Some \<open>insert_order e (orderData e uid data deliveryFee cart) db = Inr b\<close> b
      show ?thesis
        by (simp add: onSubmit_def insert_order_products
              insert_order_items_same_product_ids [OF ids])
    qed
  qed
qed

lemma products_update_order_total:
  "update_order_total now NEW OLD db = Inr db' \<Longrightarrow> products db' = products db"
  by (auto simp: update_order_total_def split: option.splits sum.splits)

lemma products_fire_insert_triggers:
  "fire_insert_triggers now new db = Inr db' \<Longrightarrow> products db' = products db"
proof (induction new arbitrary: db)
  case Nil
  then show ?case by simp
next
  case (Cons i rest)
  then show ?case
    by (auto split: sum.splits dest: products_update_order_total)
qed

lemma products_insert_order_items:
  "insert_order_items e rows db = Inr db' \<Longrightarrow> products db' = products db"
  by (auto simp: insert_order_items_def Let_def split: option.splits if_splits
        dest: products_fire_insert_triggers)

lemma products_onSubmit:
  assumes "onSubmit e user data deliveryFee cart db = (OrderPlaced oid, cart', db')"
  shows "products db' = products db"
proof -
  from assms obtain uid where u: "user = Some uid"
    by (cases user) (simp_all add: onSubmit_def)
  from assms u obtain ord db1 where
    o: "insert_order e (orderData e uid data deliveryFee cart) db = Inr (ord, db1)"
    by (auto simp: onSubmit_def split: sum.splits)
  from assms u o have
    i: "insert_order_items e (orderItems (o_id ord) (items cart)) db1 = Inr db'"
    by (auto simp: onSubmit_def split: sum.splits)
  from products_insert_order [OF o] products_insert_order_items [OF i] show ?thesis by simp
qed

lemma onSubmit_reprice:
  assumes "onSubmit e user data deliveryFee cart db = (OrderPlaced oid, cart', db')"
  shows "onSubmit e user data deliveryFee cart (reprice f db) = (OrderPlaced oid, cart', reprice f db')"
proof -
  let ?ps = "map (\<lambda>p. p\<lparr>pr_price := f p\<rparr>) (products db)"
  have "pr_id ` set ?ps = pr_id ` set (products db)"
    by (simp add: image_image)
  from onSubmit_same_product_ids [OF this, of e user data deliveryFee cart] assms
  have "onSubmit e user data deliveryFee cart (db\<lparr>products := ?ps\<rparr>) =
          (OrderPlaced oid, cart', db'\<lparr>products := ?ps\<rparr>)"
    by simp
  then show ?thesis
    using products_onSubmit [OF assms] by (simp add: reprice_def)
qed

text \<open>
  Claim C8. For every cart item of a checkout that places an order, the order item stored for
  it carries the cart's unit price and quantity and a subtotal equal to their product. The
  outcome and the stored rows are the same whatever prices the \<open>products\<close> table holds when
  the order is placed, and a later change of prices does not touch the stored rows.
\<close>

theorem onSubmit_stores_cart_prices:
  assumes "onSubmit e user data deliveryFee cart db = (OrderPlaced oid, cart', db')"
  shows "take (length (order_items db)) (order_items db') = order_items db \<and>
         map item_columns (drop (length (order_items db)) (order_items db')) =
           map (\<lambda>item. (oid, productId item, quantity item, price item,
                         price item * quantity item))
               (items cart) \<and>
         onSubmit e user data deliveryFee cart (reprice f db) =
           (OrderPlaced oid, cart', reprice f db') \<and>
         order_items (reprice f db') = order_items db'"
  using onSubmit_stores_cart_rows [OF assms] onSubmit_reprice [OF assms]
  by (simp add: reprice_def)

lemmas checkout_defs = onSubmit_def orderData_def insert_order_def insert_order_items_def
  orderItems_def failure_text_def item_columns_def check_in_def coalesce_def

lemma sample_cart_eq:
  "sample_cart =
     \<lparr>items =
        [\<lparr>productId = ''P1'', name = ''Cassava'', price = 250, unit = ''kg'', image_url = None,
          vendorId = ''V1'', vendorName = ''Green Acre'', maxStock = 40, item_id = ''P1-10'',
          quantity = 4\<rparr>,
         \<lparr>productId = ''P2'', name = ''Okra'', price = 1500, unit = ''basket'', image_url = None,
          vendorId = ''V2'', vendorName = ''Hill Farm'', maxStock = 3, item_id = ''P2-11'',
          quantity = 1\<rparr>],
      total' = 2500, itemCount = 5\<rparr>"
  by code_simp

theorem onSubmit_stores_cart_prices_witness:
  "fst (onSubmit (quiet_env 20 ''O1'') (Some ''customer-1'') sample_form 500 sample_cart shop)
     = OrderPlaced ''O1'' \<and>
   map item_columns
     (order_items (snd (snd (onSubmit (quiet_env 20 ''O1'') (Some ''customer-1'') sample_form 500
        sample_cart shop)))) =
     [(''O1'', ''P1'', 4, 250, 1000), (''O1'', ''P2'', 1, 1500, 1500)] \<and>
   map pr_price (products shop) = [250, 1500] \<and>
   map pr_price (products (reprice (\<lambda>p. 999) shop)) = [999, 999] \<and>
   map item_columns
     (order_items (snd (snd (onSubmit (quiet_env 20 ''O1'') (Some ''customer-1'') sample_form 500
        sample_cart (reprice (\<lambda>p. 999) shop))))) =
     [(''O1'', ''P1'', 4, 250, 1000), (''O1'', ''P2'', 1, 1500, 1500)]"
proof -
  let ?run = "onSubmit (quiet_env 20 ''O1'') (Some ''customer-1'') sample_form 500 sample_cart shop"
  have r: "fst ?run = OrderPlaced ''O1''"
    unfolding sample_cart_eq
    by (simp add: checkout_defs trigger_defs sample_defs shop_def cassava_def okra_def
          sample_form_def truthy_def Let_def show_nat_0 show_nat_1 del: show_nat.simps)
  then have p: "?run = (OrderPlaced ''O1'', fst (snd ?run), snd (snd ?run))"
    by (metis prod.collapse)
  have m: "order_items shop = []" by (simp add: shop_def empty_db_def)
  have pr: "map pr_price (products shop) = [250, 1500]"
    "map pr_price (products (reprice (\<lambda>p. 999) shop)) = [999, 999]"
    by (simp_all add: reprice_def shop_def cassava_def okra_def)
  from onSubmit_stores_cart_prices [OF p, of "\<lambda>p. 999"] r m pr
  show ?thesis
    by (simp add: sample_cart_eq)
qed

text \<open>An item for a product that the shop does not hold is refused by the foreign key.\<close>

lemma onSubmit_unknown_product_fails:
  "fst (onSubmit (quiet_env 20 ''O1'') (Some ''customer-1'') sample_form 500 sample_cart market)
     = OrderFailed ''violates foreign key constraint''"
  unfolding sample_cart_eq
  by (simp add: checkout_defs trigger_defs sample_defs market_def cassava_def pending_vendor_def
        sample_form_def truthy_def Let_def show_nat_0 show_nat_1 del: show_nat.simps)

end
